theory Spec2Isabelle
  imports Complex_Main "HOL-Library.Sublist"
begin

section \<open>Python values, errors and dictionaries\<close>

text \<open>
  The rows handled by \<^verbatim>\<open>etrade_report_analyzer.py\<close> are Python dictionaries with string
  keys and dynamically typed values. The values that occur in them are modelled by
  \<open>pyval\<close>: \<open>None\<close>, booleans, unbounded integers, floats, strings, pandas timestamps
  (midnight timestamps, as \<^verbatim>\<open>pd.to_datetime(..., format="%m/%d/%Y")\<close> produces them)
  and pandas' \<open>NaT\<close>. Floats are modelled by real numbers: rounding, infinities and NaN
  are outside the model.
\<close>

datatype timestamp = Timestamp (ts_year: nat) (ts_month: nat) (ts_day: nat)

datatype pyval =
    VNone
  | VBool bool
  | VInt int
  | VFloat real
  | VStr string
  | VDate timestamp
  | VNaT

text \<open>
  Exceptions are values. \<open>MissingKey k i\<close> is the \<open>KeyError\<close> that the table generator
  raises again with a message naming the key \<open>k\<close> and the index \<open>i\<close> of the entry.
  \<open>Unmodelled\<close> is not a Python exception: it marks the two places
  where Python computes a value that \<open>pyval\<close> cannot hold (arithmetic on dates, whose
  result is library specific, and the repetition of a JSON array by an integer).
\<close>

datatype pyerr =
    TypeError
  | KeyError string
  | MissingKey string nat
  | AttributeError
  | ValueError
  | AssertionError
  | ConnectionError
  | IndexError
  | Unmodelled

type_synonym entry = "(string \<times> pyval) list"

text \<open>
  A dictionary is the list of its items in insertion order. Python keeps the keys of a
  dictionary distinct, and so do the operations below; of a list that repeats a key only
  the first item with that key is ever read.

  \<^verbatim>\<open>d.get(k, default)\<close> and \<^verbatim>\<open>d[k]\<close>:
\<close>

definition dict_get :: "entry \<Rightarrow> string \<Rightarrow> pyval \<Rightarrow> pyval" where
  "dict_get d k dflt = (case map_of d k of None \<Rightarrow> dflt | Some v \<Rightarrow> v)"

definition dict_item :: "entry \<Rightarrow> string \<Rightarrow> pyerr + pyval" where
  "dict_item d k = (case map_of d k of None \<Rightarrow> Inl (KeyError k) | Some v \<Rightarrow> Inr v)"

text \<open>
  \<^verbatim>\<open>d[k] = v\<close> and \<^verbatim>\<open>d.update({k: v})\<close>: an existing key keeps its position, a new key is
  appended.
\<close>

fun dict_set :: "entry \<Rightarrow> string \<Rightarrow> pyval \<Rightarrow> entry" where
  "dict_set [] k v = [(k, v)]"
| "dict_set ((k', v') # d) k v = (if k' = k then (k, v) # d else (k', v') # dict_set d k v)"

subsection \<open>Numbers\<close>

text \<open>
  \<^verbatim>\<open>isinstance(x, (int, float))\<close> holds for integers, floats and (since \<open>bool\<close> is a
  subclass of \<open>int\<close>) booleans. Arithmetic between two integers stays an integer, any
  float operand makes the result a float.
\<close>

datatype pynum = NInt int | NFloat real

fun as_num :: "pyval \<Rightarrow> pynum option" where
  "as_num (VBool b) = Some (NInt (if b then 1 else 0))"
| "as_num (VInt i) = Some (NInt i)"
| "as_num (VFloat r) = Some (NFloat r)"
| "as_num _ = None"

fun as_int :: "pyval \<Rightarrow> int option" where
  "as_int (VBool b) = Some (if b then 1 else 0)"
| "as_int (VInt i) = Some i"
| "as_int _ = None"

fun as_str :: "pyval \<Rightarrow> string option" where
  "as_str (VStr s) = Some s"
| "as_str _ = None"

fun is_date :: "pyval \<Rightarrow> bool" where
  "is_date (VDate _) = True"
| "is_date VNaT = True"
| "is_date _ = False"

fun num_real :: "pynum \<Rightarrow> real" where
  "num_real (NInt i) = real_of_int i"
| "num_real (NFloat r) = r"

fun of_num :: "pynum \<Rightarrow> pyval" where
  "of_num (NInt i) = VInt i"
| "of_num (NFloat r) = VFloat r"

fun num_add :: "pynum \<Rightarrow> pynum \<Rightarrow> pynum" where
  "num_add (NInt x) (NInt y) = NInt (x + y)"
| "num_add a b = NFloat (num_real a + num_real b)"

fun num_sub :: "pynum \<Rightarrow> pynum \<Rightarrow> pynum" where
  "num_sub (NInt x) (NInt y) = NInt (x - y)"
| "num_sub a b = NFloat (num_real a - num_real b)"

fun num_mul :: "pynum \<Rightarrow> pynum \<Rightarrow> pynum" where
  "num_mul (NInt x) (NInt y) = NInt (x * y)"
| "num_mul a b = NFloat (num_real a * num_real b)"

text \<open>What Python does when no arithmetic rule applies to the operands.\<close>

definition unsupported :: "pyval \<Rightarrow> pyval \<Rightarrow> pyerr + pyval" where
  "unsupported a b = (if is_date a \<or> is_date b then Inl Unmodelled else Inl TypeError)"

definition py_add :: "pyval \<Rightarrow> pyval \<Rightarrow> pyerr + pyval" where
  "py_add a b =
     (case (as_num a, as_num b) of
        (Some x, Some y) \<Rightarrow> Inr (of_num (num_add x y))
      | _ \<Rightarrow> (case (as_str a, as_str b) of
                (Some s, Some t) \<Rightarrow> Inr (VStr (s @ t))
              | _ \<Rightarrow> unsupported a b))"

definition py_sub :: "pyval \<Rightarrow> pyval \<Rightarrow> pyerr + pyval" where
  "py_sub a b =
     (case (as_num a, as_num b) of
        (Some x, Some y) \<Rightarrow> Inr (of_num (num_sub x y))
      | _ \<Rightarrow> unsupported a b)"

definition py_mul :: "pyval \<Rightarrow> pyval \<Rightarrow> pyerr + pyval" where
  "py_mul a b =
     (case (as_num a, as_num b) of
        (Some x, Some y) \<Rightarrow> Inr (of_num (num_mul x y))
      | _ \<Rightarrow> (case (as_str a, as_int b) of
                (Some s, Some n) \<Rightarrow> Inr (VStr (concat (replicate (nat n) s)))
              | _ \<Rightarrow> (case (as_int a, as_str b) of
                        (Some n, Some s) \<Rightarrow> Inr (VStr (concat (replicate (nat n) s)))
                      | _ \<Rightarrow> unsupported a b)))"

subsection \<open>Strings\<close>

fun show_nat :: "nat \<Rightarrow> string" where
  "show_nat n =
     (if n < 10 then [''0123456789'' ! n]
      else show_nat (n div 10) @ [''0123456789'' ! (n mod 10)])"

declare show_nat.simps [simp del]

definition show_int :: "int \<Rightarrow> string" where
  "show_int i = (if i < 0 then ''-'' @ show_nat (nat (- i)) else show_nat (nat i))"

definition pad2 :: "nat \<Rightarrow> string" where
  "pad2 n = (if n < 10 then ''0'' @ show_nat n else show_nat n)"

text \<open>The two \<^verbatim>\<open>strftime\<close> formats of the program, \<^verbatim>\<open>"%Y-%m-%d"\<close> and \<^verbatim>\<open>"%d.%m.%Y"\<close>.\<close>

definition fmt_ymd :: "timestamp \<Rightarrow> string" where
  "fmt_ymd t = show_nat (ts_year t) @ ''-'' @ pad2 (ts_month t) @ ''-'' @ pad2 (ts_day t)"

definition fmt_dmy :: "timestamp \<Rightarrow> string" where
  "fmt_dmy t = pad2 (ts_day t) @ ''.'' @ pad2 (ts_month t) @ ''.'' @ show_nat (ts_year t)"

text \<open>
  \<^verbatim>\<open>v.strftime(fmt)\<close>: a timestamp is formatted, \<open>NaT\<close> raises \<open>ValueError\<close>, every other
  value has no such attribute.
\<close>

fun strftime :: "pyval \<Rightarrow> (timestamp \<Rightarrow> string) \<Rightarrow> pyerr + string" where
  "strftime (VDate t) fmt = Inr (fmt t)"
| "strftime VNaT fmt = Inl ValueError"
| "strftime _ fmt = Inl AttributeError"

text \<open>
  \<^verbatim>\<open>str(v)\<close>. The text of a float is produced by the Python runtime; it is the parameter
  \<open>float_str\<close>.
\<close>

fun py_str :: "(real \<Rightarrow> string) \<Rightarrow> pyval \<Rightarrow> string" where
  "py_str float_str VNone = ''None''"
| "py_str float_str (VBool b) = (if b then ''True'' else ''False'')"
| "py_str float_str (VInt i) = show_int i"
| "py_str float_str (VFloat r) = float_str r"
| "py_str float_str (VStr s) = s"
| "py_str float_str (VDate t) = fmt_ymd t @ '' 00:00:00''"
| "py_str float_str VNaT = ''NaT''"

text \<open>\<^verbatim>\<open>sub in s\<close> on strings: some suffix of \<open>s\<close> starts with \<open>sub\<close>.\<close>

fun str_contains :: "string \<Rightarrow> string \<Rightarrow> bool" where
  "str_contains sub [] = (sub = [])"
| "str_contains sub (c # s) = (prefix sub (c # s) \<or> str_contains sub s)"

section \<open>The exchange-rate lookup with its cache\<close>

text \<open>
  A decoded JSON document, as \<^verbatim>\<open>json.loads\<close> returns it. \<open>JNull\<close> is Python's \<open>None\<close>.
\<close>

datatype json =
    JNull
  | JBool bool
  | JInt int
  | JFloat real
  | JStr string
  | JArr "json list"
  | JObj "(string \<times> json) list"

type_synonym json_object = "(string \<times> json) list"

definition json_get :: "json_object \<Rightarrow> string \<Rightarrow> json" where
  "json_get d k = (case map_of d k of None \<Rightarrow> JNull | Some v \<Rightarrow> v)"

text \<open>
  The rate service. A request either fails to connect or yields a response with a status
  code and a body; the body is \<open>None\<close> when it does not decode to JSON. The service is a
  function of the number of requests made before and of the URL, so that two requests
  for the same URL may be answered differently.
\<close>

record http_response =
  status_code :: int
  content :: "json option"

datatype net_reply = Unreachable | Reply http_response

type_synonym network = "nat \<Rightarrow> string \<Rightarrow> net_reply"

text \<open>
  The process state: the module-level list \<^verbatim>\<open>EXCHANGE_CACHE\<close> and the URLs requested so
  far.
\<close>

record world =
  EXCHANGE_CACHE :: "json_object list"
  requested :: "string list"

definition CURRENCY_API :: string where
  "CURRENCY_API = ''https://api.frankfurter.app''"

text \<open>
  Lines 21-24: the scan over the whole cache; every element whose \<^verbatim>\<open>"date"\<close> equals the
  requested date overwrites \<open>rates\<close>, so the last one wins.
\<close>

fun cache_scan :: "json_object list \<Rightarrow> string \<Rightarrow> json \<Rightarrow> json" where
  "cache_scan [] date rates = rates"
| "cache_scan (dict_elem # rest) date rates =
     cache_scan rest date
       (if json_get dict_elem ''date'' = JStr date then json_get dict_elem ''rates'' else rates)"

text \<open>Lines 32-34: \<^verbatim>\<open>if return_currency: return rates.get(return_currency)\<close>, else \<open>rates\<close>.\<close>

definition select_rate :: "json \<Rightarrow> string option \<Rightarrow> pyerr + json" where
  "select_rate rates return_currency =
     (case return_currency of
        None \<Rightarrow> Inr rates
      | Some cur \<Rightarrow>
          if cur = [] then Inr rates
          else (case rates of JObj m \<Rightarrow> Inr (json_get m cur) | _ \<Rightarrow> Inl AttributeError))"

definition get_exchange_trade ::
  "network \<Rightarrow> string \<Rightarrow> string \<Rightarrow> string option \<Rightarrow> world \<Rightarrow> (pyerr + json) \<times> world" where
  "get_exchange_trade net date base return_currency w =
     (let full_url = CURRENCY_API @ ''/'' @ date @ ''?base='' @ base;
          rates = cache_scan (EXCHANGE_CACHE w) date JNull
      in if rates = JNull then
           (let w1 = w\<lparr>requested := requested w @ [full_url]\<rparr> in
            case net (length (requested w)) full_url of
              Unreachable \<Rightarrow> (Inl ConnectionError, w1)
            | Reply req \<Rightarrow>
                if status_code req = 200 then
                  (case content req of
                     None \<Rightarrow> (Inl ValueError, w1)
                   | Some (JObj api_return) \<Rightarrow>
                       (case json_get api_return ''rates'' of
                          JObj m \<Rightarrow>
                            (select_rate (JObj m) return_currency,
                             w1\<lparr>EXCHANGE_CACHE := EXCHANGE_CACHE w1 @ [api_return]\<rparr>)
                        | _ \<Rightarrow> (Inl AssertionError, w1))
                   | Some _ \<Rightarrow> (Inl AttributeError, w1))
                else (select_rate JNull return_currency, w1))
         else (select_rate rates return_currency, w))"

section \<open>The computation of line items\<close>

text \<open>Truth value of a looked-up rate (\<^verbatim>\<open>if exchange_rate:\<close>).\<close>

fun json_truthy :: "json \<Rightarrow> bool" where
  "json_truthy JNull = False"
| "json_truthy (JBool b) = b"
| "json_truthy (JInt i) = (i \<noteq> 0)"
| "json_truthy (JFloat r) = (r \<noteq> 0)"
| "json_truthy (JStr s) = (s \<noteq> [])"
| "json_truthy (JArr xs) = (xs \<noteq> [])"
| "json_truthy (JObj m) = (m \<noteq> [])"

text \<open>
  \<^verbatim>\<open>kapitalertrag_usd * exchange_rate\<close>. A scalar rate multiplies as a Python value. A
  JSON array is repeated by an integer (a value outside \<open>pyval\<close>) and is a type error
  for every other left operand; a JSON object is always a type error.
\<close>

fun py_mul_json :: "pyval \<Rightarrow> json \<Rightarrow> pyerr + pyval" where
  "py_mul_json a JNull = py_mul a VNone"
| "py_mul_json a (JBool b) = py_mul a (VBool b)"
| "py_mul_json a (JInt i) = py_mul a (VInt i)"
| "py_mul_json a (JFloat r) = py_mul a (VFloat r)"
| "py_mul_json a (JStr s) = py_mul a (VStr s)"
| "py_mul_json a (JArr xs) =
     (if is_date a \<or> as_int a \<noteq> None then Inl Unmodelled else Inl TypeError)"
| "py_mul_json a (JObj m) = (if is_date a then Inl Unmodelled else Inl TypeError)"

text \<open>
  Lines 215-259, the body of the loop of \<^verbatim>\<open>parse_data\<close> for one entry. An exception
  leaves the loop; the requests made and the cache entries added before it remain.
\<close>

definition parse_entry ::
  "network \<Rightarrow> (real \<Rightarrow> string) \<Rightarrow> bool \<Rightarrow> entry \<Rightarrow> world \<Rightarrow> (pyerr + entry) \<times> world" where
  "parse_entry net float_str exchange entry w =
     (let espp = (dict_get entry ''PlanType'' VNone = VStr ''ESPP'');
          is_selltocover = dict_get entry ''is_selltocover'' (VBool False);
          purchase_price_per_share =
            (if \<not> espp then dict_get entry ''AdjustedCostPerShare'' (VFloat 0)
             else dict_get entry ''PurchasePrice'' (VFloat 0))
      in (case (if \<not> espp
                then py_add (dict_get entry ''AdjustedCostPerShare'' VNone)
                            (dict_get entry ''GainLossPerShare'' (VFloat 0))
                else Inr (dict_get entry ''AdjustedCostPerShare'' (VFloat 0))) of
            Inl e \<Rightarrow> (Inl e, w)
          | Inr sell_price_per_share \<Rightarrow>
      (case (if \<not> espp then Inr (dict_get entry ''GainLossPerShare'' (VFloat 0))
             else py_sub sell_price_per_share purchase_price_per_share) of
            Inl e \<Rightarrow> (Inl e, w)
          | Inr gainloss_per_share \<Rightarrow>
      (case py_mul sell_price_per_share (dict_get entry ''SharesSold'' (VInt 0)) of
            Inl e \<Rightarrow> (Inl e, w)
          | Inr total_value \<Rightarrow>
      (case py_mul gainloss_per_share (dict_get entry ''SharesSold'' (VInt 0)) of
            Inl e \<Rightarrow> (Inl e, w)
          | Inr kapitalertrag_usd \<Rightarrow>
      (case (if exchange
             then (case strftime (dict_get entry ''SaleDate'' VNone) fmt_ymd of
                     Inl e \<Rightarrow> (Inl e, w)
                   | Inr date \<Rightarrow> get_exchange_trade net date ''USD'' (Some ''EUR'') w)
             else (Inr JNull, w)) of
            (Inl e, w1) \<Rightarrow> (Inl e, w1)
          | (Inr exchange_rate, w1) \<Rightarrow>
      (case (if json_truthy exchange_rate
             then py_mul_json kapitalertrag_usd exchange_rate
             else Inr (VStr ''n/a'')) of
            Inl e \<Rightarrow> (Inl e, w1)
          | Inr kapitalertrag_eur \<Rightarrow>
      (case dict_item entry ''SaleDate'' of
            Inl e \<Rightarrow> (Inl e, w1)
          | Inr sale_date \<Rightarrow>
      (let updated_dict =
             [(''Order'', VStr (py_str float_str (dict_get entry ''OrderNumber'' VNone))),
              (''Verkaufsdatum'', sale_date),
              (''Type'', dict_get entry ''OrderType'' VNone),
              (''PlanType'', dict_get entry ''PlanType'' VNone),
              (''Anz.'', dict_get entry ''SharesSold'' VNone),
              (''Kaufwert'', purchase_price_per_share),
              (''Gewinn/Verlust'', gainloss_per_share),
              (''Verkaufswert'', sell_price_per_share),
              (''Orderwert'', total_value),
              (''KapitalErtrag (USD)'', kapitalertrag_usd),
              (''KapitalErtrag (EUR)'', kapitalertrag_eur),
              (''is_selltocover'', is_selltocover)]
       in (Inr (if espp then dict_set updated_dict ''Rabatt (inkl.)'' (VStr ''15%'')
                else updated_dict), w1))))))))))"

text \<open>
  \<^verbatim>\<open>parse_data(data, exchange)\<close>: the entries in order, each appended to the result; the
  state is threaded through the lookups.
\<close>

fun parse_data ::
  "network \<Rightarrow> (real \<Rightarrow> string) \<Rightarrow> entry list \<Rightarrow> bool \<Rightarrow> world \<Rightarrow> (pyerr + entry list) \<times> world" where
  "parse_data net float_str [] exchange w = (Inr [], w)"
| "parse_data net float_str (entry # rest) exchange w =
     (case parse_entry net float_str exchange entry w of
        (Inl e, w1) \<Rightarrow> (Inl e, w1)
      | (Inr updated_dict, w1) \<Rightarrow>
          (case parse_data net float_str rest exchange w1 of
             (Inl e, w2) \<Rightarrow> (Inl e, w2)
           | (Inr parsed_data, w2) \<Rightarrow> (Inr (updated_dict # parsed_data), w2)))"

section \<open>Reading the rows of the data frame\<close>

text \<open>
  After lines 46-89 the data frame has the eight renamed columns. The two cleaned columns
  hold floats, \<^verbatim>\<open>SaleDate\<close> holds a timestamp or \<open>NaT\<close> (\<^verbatim>\<open>errors="coerce"\<close>); the other
  cells are whatever pandas inferred. A row of that frame:
\<close>

record df_row =
  col_PlanType :: pyval
  col_OrderType :: pyval
  col_SharesSold :: pyval
  col_SaleDate :: "timestamp option"
  col_OrderNumber :: pyval
  col_GainLossPerShare :: real
  col_AdjustedCostPerShare :: real
  col_PurchasePrice :: pyval

text \<open>Lines 92-104: the dictionary built for one row.\<close>

definition row_record :: "(real \<Rightarrow> string) \<Rightarrow> df_row \<Rightarrow> entry" where
  "row_record float_str row =
     [(''OrderNumber'', VStr (py_str float_str (col_OrderNumber row))),
      (''SaleDate'', (case col_SaleDate row of None \<Rightarrow> VNaT | Some t \<Rightarrow> VDate t)),
      (''OrderType'', col_OrderType row),
      (''PlanType'', col_PlanType row),
      (''SharesSold'', col_SharesSold row),
      (''AdjustedCostPerShare'', VFloat (col_AdjustedCostPerShare row)),
      (''GainLossPerShare'', VFloat (col_GainLossPerShare row)),
      (''PurchasePrice'', col_PurchasePrice row),
      (''is_selltocover'',
         VBool (if str_contains ''STC'' (py_str float_str (col_OrderType row))
                then True else False))]"

text \<open>\<^verbatim>\<open>read_csv\<close> from line 91 on, applied to the prepared data frame.\<close>

definition read_csv :: "(real \<Rightarrow> string) \<Rightarrow> df_row list \<Rightarrow> entry list" where
  "read_csv float_str df = map (row_record float_str) df"

section \<open>Grouping and rendering\<close>

text \<open>
  \<^verbatim>\<open>format_value\<close>: a float goes through \<^verbatim>\<open>locale.currency\<close> (the parameter \<open>currency\<close>),
  every other value through \<^verbatim>\<open>str\<close>.
\<close>

definition format_value :: "(real \<Rightarrow> string) \<Rightarrow> (real \<Rightarrow> string) \<Rightarrow> pyval \<Rightarrow> string" where
  "format_value currency float_str v =
     (case v of VFloat r \<Rightarrow> currency r | _ \<Rightarrow> py_str float_str v)"

text \<open>
  The generator writes into the dictionaries of the caller's list. The dictionaries
  therefore live in a store, and the list holds their addresses; an element of the list
  that is not a dictionary is kept as a plain value.
\<close>

type_synonym heap = "nat \<Rightarrow> entry"

datatype obj = DictRef nat | Plain pyval

fun is_dict :: "obj \<Rightarrow> bool" where
  "is_dict (DictRef a) = True"
| "is_dict (Plain v) = False"

fun refs_of :: "obj list \<Rightarrow> nat list" where
  "refs_of [] = []"
| "refs_of (DictRef a # xs) = a # refs_of xs"
| "refs_of (Plain v # xs) = refs_of xs"

text \<open>
  A table of the rendering library: its column names and its rows. The first two cells
  of a data row are the year and the plan type as they are, all other cells are strings.
\<close>

record table =
  field_names :: "string list"
  table_rows :: "pyval list list"

text \<open>
  Equality of dictionary keys: numbers (booleans included) are equal when their values
  are, other values when they are the same.
\<close>

definition py_eq :: "pyval \<Rightarrow> pyval \<Rightarrow> bool" where
  "py_eq a b =
     (case (as_num a, as_num b) of
        (Some x, Some y) \<Rightarrow> num_real x = num_real y
      | (None, None) \<Rightarrow> a = b
      | _ \<Rightarrow> False)"

text \<open>
  \<^verbatim>\<open>grouped_data\<close>: years in first-seen order, under each year the plan types in
  first-seen order, under each plan type the addresses of its entries in input order.
  Lines 143-149 create the missing levels and append the entry.
\<close>

type_synonym plans = "(pyval \<times> nat list) list"
type_synonym grouped = "(nat \<times> plans) list"

fun plans_add :: "plans \<Rightarrow> pyval \<Rightarrow> nat \<Rightarrow> plans" where
  "plans_add [] plan_type a = [(plan_type, [a])]"
| "plans_add ((k, recs) # ps) plan_type a =
     (if py_eq k plan_type then (k, recs @ [a]) # ps
      else (k, recs) # plans_add ps plan_type a)"

fun grouped_add :: "grouped \<Rightarrow> nat \<Rightarrow> pyval \<Rightarrow> nat \<Rightarrow> grouped" where
  "grouped_add [] year plan_type a = [(year, [(plan_type, [a])])]"
| "grouped_add ((y, ps) # g) year plan_type a =
     (if y = year then (y, plans_add ps plan_type a) # g
      else (y, ps) # grouped_add g year plan_type a)"

text \<open>
  Lines 135-137: \<^verbatim>\<open>if filter_year:\<close> holds for an integer other than zero; the entry is
  skipped when its year is not that integer.
\<close>

fun filter_active :: "int option \<Rightarrow> bool" where
  "filter_active None = False"
| "filter_active (Some n) = (n \<noteq> 0)"

definition year_excluded :: "int option \<Rightarrow> nat \<Rightarrow> bool" where
  "year_excluded filter_year year = (filter_active filter_year \<and> Some (int year) \<noteq> filter_year)"

text \<open>
  Lines 133-149 for the entry at address \<open>a\<close>, index \<open>i\<close>. Returning the groups as they
  were is the \<^verbatim>\<open>continue\<close>. By the value found under \<^verbatim>\<open>"Verkaufsdatum"\<close>:
  a timestamp has an integer \<open>year\<close>; \<open>NaT\<close> has the year NaN, which differs from every
  filter year, and its \<^verbatim>\<open>strftime\<close> raises \<open>ValueError\<close>; any other value has no
  attribute \<open>year\<close>. The date is overwritten before \<^verbatim>\<open>"PlanType"\<close> is read.
\<close>

definition group_step ::
  "int option \<Rightarrow> nat \<Rightarrow> nat \<Rightarrow> grouped \<Rightarrow> heap \<Rightarrow> (pyerr + grouped) \<times> heap" where
  "group_step filter_year i a grouped_data h =
     (case dict_item (h a) ''Verkaufsdatum'' of
        Inl e \<Rightarrow> (Inl (MissingKey ''Verkaufsdatum'' i), h)
      | Inr (VDate t) \<Rightarrow>
          if year_excluded filter_year (ts_year t) then (Inr grouped_data, h)
          else (let h1 = h(a := dict_set (h a) ''Verkaufsdatum'' (VStr (fmt_dmy t))) in
                case dict_item (h1 a) ''PlanType'' of
                  Inl e \<Rightarrow> (Inl (MissingKey ''PlanType'' i), h1)
                | Inr plan_type \<Rightarrow>
                    (Inr (grouped_add grouped_data (ts_year t) plan_type a), h1))
      | Inr VNaT \<Rightarrow>
          if filter_active filter_year then (Inr grouped_data, h) else (Inl ValueError, h)
      | Inr _ \<Rightarrow> (Inl AttributeError, h))"

fun group_entries ::
  "int option \<Rightarrow> nat \<Rightarrow> nat list \<Rightarrow> grouped \<Rightarrow> heap \<Rightarrow> (pyerr + grouped) \<times> heap" where
  "group_entries filter_year i [] grouped_data h = (Inr grouped_data, h)"
| "group_entries filter_year i (a # rest) grouped_data h =
     (case group_step filter_year i a grouped_data h of
        (Inl e, h1) \<Rightarrow> (Inl e, h1)
      | (Inr g1, h1) \<Rightarrow> group_entries filter_year (Suc i) rest g1 h1)"

text \<open>
  \<^verbatim>\<open>sum(xs)\<close>: additions from the left, starting at the integer 0. The first error of
  a list of results is the exception that a sequential evaluation raises.
\<close>

fun py_sum :: "pyval \<Rightarrow> pyval list \<Rightarrow> pyerr + pyval" where
  "py_sum acc [] = Inr acc"
| "py_sum acc (x # xs) =
     (case py_add acc x of Inl e \<Rightarrow> Inl e | Inr acc' \<Rightarrow> py_sum acc' xs)"

fun collect :: "('e + 'a) list \<Rightarrow> 'e + 'a list" where
  "collect [] = Inr []"
| "collect (Inl e # rs) = Inl e"
| "collect (Inr x # rs) = (case collect rs of Inl e \<Rightarrow> Inl e | Inr xs \<Rightarrow> Inr (x # xs))"

text \<open>Lines 185-200: the cell of the totals row for one field.\<close>

definition total_cell ::
  "(real \<Rightarrow> string) \<Rightarrow> (real \<Rightarrow> string) \<Rightarrow> string list \<Rightarrow> entry list \<Rightarrow> string
     \<Rightarrow> pyerr + pyval" where
  "total_cell currency float_str exclude_total records field =
     (let column_values = map (\<lambda>record. dict_get record field (VInt 0)) records
      in if field \<notin> set exclude_total
         then (case py_sum (VInt 0)
                      (map (\<lambda>x. if as_num x \<noteq> None then x else VInt 0) column_values) of
                 Inl e \<Rightarrow> Inl e
               | Inr s \<Rightarrow> Inr (VStr (format_value currency float_str s)))
         else Inr (VStr ''''))"

text \<open>
  Lines 156-204 for one group. \<^verbatim>\<open>records[0]\<close> raises \<open>IndexError\<close> on an empty group.
  The checks of the rendering library (unique column names, rows as long as the column
  list) are not modelled.
\<close>

definition make_table ::
  "(real \<Rightarrow> string) \<Rightarrow> (real \<Rightarrow> string) \<Rightarrow> string list \<Rightarrow> string list \<Rightarrow> nat \<Rightarrow> pyval
     \<Rightarrow> entry list \<Rightarrow> pyerr + table" where
  "make_table currency float_str exclude_fields exclude_total year plan_type records =
     (case records of
        [] \<Rightarrow> Inl IndexError
      | first # _ \<Rightarrow>
          (let existing_keys = map fst first;
               names = [''Year'', ''PlanType''] @
                       filter (\<lambda>key. key \<notin> set ([''Year'', ''PlanType''] @ exclude_fields))
                         existing_keys;
               data_rows =
                 map (\<lambda>record.
                        [VInt (int year), plan_type] @
                        map (\<lambda>field. VStr (format_value currency float_str
                                                (dict_get record field (VStr ''''))))
                            (drop 2 names))
                     records;
               separator = map (\<lambda>field. VStr ''----'') names
           in case collect (map (total_cell currency float_str exclude_total records)
                               (drop 2 names)) of
                Inl e \<Rightarrow> Inl e
              | Inr totals \<Rightarrow>
                  Inr \<lparr>field_names = names,
                       table_rows =
                         data_rows @ [separator] @ [[VStr ''Total'', VStr ''''] @ totals]\<rparr>))"

text \<open>The default values of the two exclusion parameters (lines 112-119).\<close>

definition default_exclude_fields :: "string list" where
  "default_exclude_fields = [''PurchasePrice'']"

definition default_exclude_total :: "string list" where
  "default_exclude_total =
     [''Gewinn/Verlust'', ''Order'', ''Verkaufsdatum'', ''Rabatt (inkl.)'', ''Type'']"

text \<open>
  Lines 126-127. An omitted \<^verbatim>\<open>exclude_fields\<close> is \<open>None\<close> and stands for the default of the
  signature. The concatenation is never empty, so the \<^verbatim>\<open>or\<close> yields its left operand.
\<close>

definition effective_exclude :: "string list option \<Rightarrow> string list" where
  "effective_exclude exclude_fields =
     (let default_exclude = [''is_selltocover''];
          given = (case exclude_fields of None \<Rightarrow> default_exclude_fields | Some fs \<Rightarrow> fs)
      in if given @ default_exclude \<noteq> [] then given @ default_exclude else default_exclude)"

text \<open>Lines 152-204: one table per plan type of every year, in the order of the groups.\<close>

definition group_tables ::
  "(real \<Rightarrow> string) \<Rightarrow> (real \<Rightarrow> string) \<Rightarrow> string list \<Rightarrow> string list \<Rightarrow> heap \<Rightarrow> grouped
     \<Rightarrow> (pyerr + table) list" where
  "group_tables currency float_str exclude_fields exclude_total h grouped_data =
     concat (map (\<lambda>(year, plans).
                    map (\<lambda>(plan_type, records).
                           make_table currency float_str exclude_fields exclude_total
                             year plan_type (map h records))
                        plans)
                 grouped_data)"

text \<open>
  \<^verbatim>\<open>generate_pretty_table_with_hierarchy(data, filter_year, exclude_fields, exclude_total)\<close>;
  an omitted exclusion parameter is \<open>None\<close>. The store is returned as the call leaves it,
  also when an exception ends the call.
\<close>

definition generate_pretty_table_with_hierarchy ::
  "(real \<Rightarrow> string) \<Rightarrow> (real \<Rightarrow> string) \<Rightarrow> obj list \<Rightarrow> int option \<Rightarrow> string list option
     \<Rightarrow> string list option \<Rightarrow> heap \<Rightarrow> (pyerr + table list) \<times> heap" where
  "generate_pretty_table_with_hierarchy currency float_str data filter_year exclude_fields
       exclude_total h =
     (if \<not> list_all is_dict data then (Inl TypeError, h)
      else (case group_entries filter_year 0 (refs_of data) [] h of
              (Inl e, h1) \<Rightarrow> (Inl e, h1)
            | (Inr grouped_data, h1) \<Rightarrow>
                (collect (group_tables currency float_str (effective_exclude exclude_fields)
                            (case exclude_total of None \<Rightarrow> default_exclude_total
                                                 | Some fs \<Rightarrow> fs)
                            h1 grouped_data),
                 h1)))"

section \<open>Notions used to state the properties\<close>



text \<open>
  The total of a column in the words of the specification: the sum over the rows of the
  group of the values of the column, a value that is not a number counting as 0. The sum
  is an integer when every counted value is one, and a float otherwise.
\<close>

definition counted :: "pyval \<Rightarrow> pynum" where
  "counted v = (case as_num v of None \<Rightarrow> NInt 0 | Some n \<Rightarrow> n)"

fun is_int_num :: "pynum \<Rightarrow> bool" where
  "is_int_num (NInt i) = True"
| "is_int_num (NFloat r) = False"

fun int_of_num :: "pynum \<Rightarrow> int" where
  "int_of_num (NInt i) = i"
| "int_of_num (NFloat r) = 0"

definition column_total :: "entry list \<Rightarrow> string \<Rightarrow> pyval" where
  "column_total records field =
     (let ns = map (\<lambda>record. counted (dict_get record field (VInt 0))) records
      in if list_all is_int_num ns then VInt (sum_list (map int_of_num ns))
         else VFloat (sum_list (map num_real ns)))"

text \<open>
  What the grouping loop does to the dictionary of an entry it has visited: the date of an
  entry that passes the year filter is replaced by its day.month.year text, an entry
  that the filter excludes (a \<open>NaT\<close> date under an active filter included) is left as it
  was.
\<close>

definition date_rewritten :: "int option \<Rightarrow> entry \<Rightarrow> entry \<Rightarrow> bool" where
  "date_rewritten filter_year before after =
     (case dict_get before ''Verkaufsdatum'' VNone of
        VDate t \<Rightarrow>
          if year_excluded filter_year (ts_year t) then after = before
          else after = dict_set before ''Verkaufsdatum'' (VStr (fmt_dmy t))
      | VNaT \<Rightarrow> filter_active filter_year \<and> after = before
      | _ \<Rightarrow> False)"

text \<open>The groups of \<^verbatim>\<open>grouped_data\<close>, as the lists of their addresses, in the order of the tables.\<close>

definition groups_of :: "grouped \<Rightarrow> nat list list" where
  "groups_of g = concat (map (\<lambda>(year, ps). map snd ps) g)"

text \<open>The columns of a table as the specification describes them, for a given exclusion list.\<close>

definition columns_of :: "string list \<Rightarrow> entry \<Rightarrow> string list" where
  "columns_of excluded first_record =
     [''Year'', ''PlanType''] @
     filter (\<lambda>key. key \<noteq> ''Year'' \<and> key \<noteq> ''PlanType'' \<and> key \<notin> set excluded)
       (map fst first_record)"

section \<open>Example inputs\<close>

text \<open>
  The rows of the examples of the specification: ten shares sold on 15 January 2023,
  adjusted cost 20 and gain 5 per share, once as RSU and once as ESPP with purchase
  price 17; and a row whose order type is the text "Sale to Cover".
\<close>

definition example_row :: df_row where
  "example_row =
     \<lparr>col_PlanType = VStr ''RSU'', col_OrderType = VStr ''Sale'', col_SharesSold = VInt 10,
      col_SaleDate = Some (Timestamp 2023 1 15), col_OrderNumber = VInt 1,
      col_GainLossPerShare = 5, col_AdjustedCostPerShare = 20,
      col_PurchasePrice = VFloat 0\<rparr>"

definition example_rsu :: entry where
  "example_rsu =
     [(''OrderNumber'', VStr ''1''), (''SaleDate'', VDate (Timestamp 2023 1 15)),
      (''OrderType'', VStr ''Sale''), (''PlanType'', VStr ''RSU''), (''SharesSold'', VInt 10),
      (''AdjustedCostPerShare'', VFloat 20), (''GainLossPerShare'', VFloat 5),
      (''PurchasePrice'', VFloat 0), (''is_selltocover'', VBool False)]"


definition example_nat :: entry where
  "example_nat =
     [(''OrderNumber'', VStr ''1''), (''SaleDate'', VNaT),
      (''OrderType'', VStr ''Sale''), (''PlanType'', VStr ''RSU''), (''SharesSold'', VInt 10),
      (''AdjustedCostPerShare'', VFloat 20), (''GainLossPerShare'', VFloat 5),
      (''PurchasePrice'', VFloat 0), (''is_selltocover'', VBool False)]"

text \<open>A fresh process, and a text for floats (the examples never print one with \<^verbatim>\<open>str\<close>).\<close>

definition fresh :: world where
  "fresh = \<lparr>EXCHANGE_CACHE = [], requested = []\<rparr>"

definition some_float_str :: "real \<Rightarrow> string" where
  "some_float_str r = ''<float>''"

definition some_currency :: "real \<Rightarrow> string" where
  "some_currency r = (if r = 50 then ''50,00'' else if r = 100 then ''100,00'' else ''<currency>'')"

text \<open>
  Rate services: one that answers every request with status 500; one that answers with
  the rates of 15 January 2023 (EUR 0.92) under that date; one whose answer carries the
  date of the last trading day, as the service does for \<^verbatim>\<open>latest\<close>; one whose EUR rate is
  0.0.
\<close>

definition failing_service :: network where
  "failing_service n url = Reply \<lparr>status_code = 500, content = None\<rparr>"

definition rates_service :: network where
  "rates_service n url =
     Reply \<lparr>status_code = 200,
            content = Some (JObj [(''amount'', JFloat 1), (''base'', JStr ''USD''),
                                  (''date'', JStr ''2023-01-15''),
                                  (''rates'', JObj [(''EUR'', JFloat 0.92), (''GBP'', JFloat 0.82)])])\<rparr>"

definition latest_service :: network where
  "latest_service n url =
     Reply \<lparr>status_code = 200,
            content = Some (JObj [(''amount'', JFloat 1), (''base'', JStr ''USD''),
                                  (''date'', JStr ''2023-01-13''),
                                  (''rates'', JObj [(''EUR'', JFloat 0.92)])])\<rparr>"

definition zero_service :: network where
  "zero_service n url =
     Reply \<lparr>status_code = 200,
            content = Some (JObj [(''amount'', JFloat 1), (''base'', JStr ''USD''),
                                  (''date'', JStr ''2023-01-15''),
                                  (''rates'', JObj [(''EUR'', JFloat 0)])])\<rparr>"

text \<open>
  A store for the table generator: at address 0 and 1 two RSU line items of 2022 and at
  address 2 one of 2023 (the grouping example of the specification), at every other
  address a dictionary that still has a \<^verbatim>\<open>PurchasePrice\<close> key.
\<close>

definition line_item :: "string \<Rightarrow> timestamp \<Rightarrow> entry" where
  "line_item order sold =
     [(''Order'', VStr order), (''Verkaufsdatum'', VDate sold), (''Type'', VStr ''Sale''),
      (''PlanType'', VStr ''RSU''), (''Anz.'', VInt 10), (''Kaufwert'', VFloat 20),
      (''Gewinn/Verlust'', VFloat 5), (''Verkaufswert'', VFloat 25),
      (''Orderwert'', VFloat 250), (''KapitalErtrag (USD)'', VFloat 50),
      (''KapitalErtrag (EUR)'', VStr ''n/a''), (''is_selltocover'', VBool False)]"

definition example_heap :: heap where
  "example_heap a =
     (if a = 0 then line_item ''1'' (Timestamp 2022 3 1)
      else if a = 1 then line_item ''2'' (Timestamp 2022 6 30)
      else if a = 2 then line_item ''3'' (Timestamp 2023 1 15)
      else [(''Order'', VStr ''4''), (''Verkaufsdatum'', VDate (Timestamp 2023 1 15)),
            (''PlanType'', VStr ''RSU''), (''PurchasePrice'', VFloat 17),
            (''is_selltocover'', VBool False)])"

section \<open>Properties of the computation of line items\<close>

subsection \<open>What a successful run of the loop body yields\<close>

lemma parse_entry_Inr:
  assumes "parse_entry net fs exchange e w = (Inr item, w')"
  shows "\<exists>sell gain total_value usd rate eur sd.
     (if dict_get e ''PlanType'' VNone \<noteq> VStr ''ESPP''
      then py_add (dict_get e ''AdjustedCostPerShare'' VNone)
                  (dict_get e ''GainLossPerShare'' (VFloat 0)) = Inr sell
         \<and> gain = dict_get e ''GainLossPerShare'' (VFloat 0)
      else sell = dict_get e ''AdjustedCostPerShare'' (VFloat 0)
         \<and> py_sub sell (dict_get e ''PurchasePrice'' (VFloat 0)) = Inr gain)
     \<and> py_mul sell (dict_get e ''SharesSold'' (VInt 0)) = Inr total_value
     \<and> py_mul gain (dict_get e ''SharesSold'' (VInt 0)) = Inr usd
     \<and> (if exchange
         then (\<exists>date. strftime (dict_get e ''SaleDate'' VNone) fmt_ymd = Inr date
                \<and> get_exchange_trade net date ''USD'' (Some ''EUR'') w = (Inr rate, w'))
         else rate = JNull \<and> w' = w)
     \<and> (if json_truthy rate then py_mul_json usd rate = Inr eur else eur = VStr ''n/a'')
     \<and> dict_item e ''SaleDate'' = Inr sd
     \<and> item =
         (let d = [(''Order'', VStr (py_str fs (dict_get e ''OrderNumber'' VNone))),
                   (''Verkaufsdatum'', sd),
                   (''Type'', dict_get e ''OrderType'' VNone),
                   (''PlanType'', dict_get e ''PlanType'' VNone),
                   (''Anz.'', dict_get e ''SharesSold'' VNone),
                   (''Kaufwert'',
                      if dict_get e ''PlanType'' VNone \<noteq> VStr ''ESPP''
                      then dict_get e ''AdjustedCostPerShare'' (VFloat 0)
                      else dict_get e ''PurchasePrice'' (VFloat 0)),
                   (''Gewinn/Verlust'', gain),
                   (''Verkaufswert'', sell),
                   (''Orderwert'', total_value),
                   (''KapitalErtrag (USD)'', usd),
                   (''KapitalErtrag (EUR)'', eur),
                   (''is_selltocover'', dict_get e ''is_selltocover'' (VBool False))]
          in if dict_get e ''PlanType'' VNone = VStr ''ESPP''
             then dict_set d ''Rabatt (inkl.)'' (VStr ''15%'') else d)"
  using assms unfolding parse_entry_def Let_def
  by (auto split: sum.splits if_splits prod.splits)

lemma line_item_get:
  fixes c :: bool
  defines "D \<equiv> \<lambda>ord sd ty pt an kw gv vw ow usd eur stc.
     [(''Order'', ord), (''Verkaufsdatum'', sd), (''Type'', ty), (''PlanType'', pt),
      (''Anz.'', an), (''Kaufwert'', kw), (''Gewinn/Verlust'', gv), (''Verkaufswert'', vw),
      (''Orderwert'', ow), (''KapitalErtrag (USD)'', usd), (''KapitalErtrag (EUR)'', eur),
      (''is_selltocover'', stc)]"
  shows "dict_get (if c then dict_set (D ord sd ty pt an kw gv vw ow usd eur stc) ''Rabatt (inkl.)'' r
                   else D ord sd ty pt an kw gv vw ow usd eur stc) ''Kaufwert'' x = kw"
    and "dict_get (if c then dict_set (D ord sd ty pt an kw gv vw ow usd eur stc) ''Rabatt (inkl.)'' r
                   else D ord sd ty pt an kw gv vw ow usd eur stc) ''Gewinn/Verlust'' x = gv"
    and "dict_get (if c then dict_set (D ord sd ty pt an kw gv vw ow usd eur stc) ''Rabatt (inkl.)'' r
                   else D ord sd ty pt an kw gv vw ow usd eur stc) ''Verkaufswert'' x = vw"
    and "dict_get (if c then dict_set (D ord sd ty pt an kw gv vw ow usd eur stc) ''Rabatt (inkl.)'' r
                   else D ord sd ty pt an kw gv vw ow usd eur stc) ''Orderwert'' x = ow"
    and "dict_get (if c then dict_set (D ord sd ty pt an kw gv vw ow usd eur stc) ''Rabatt (inkl.)'' r
                   else D ord sd ty pt an kw gv vw ow usd eur stc) ''KapitalErtrag (USD)'' x = usd"
    and "dict_get (if c then dict_set (D ord sd ty pt an kw gv vw ow usd eur stc) ''Rabatt (inkl.)'' r
                   else D ord sd ty pt an kw gv vw ow usd eur stc) ''KapitalErtrag (EUR)'' x = eur"
    and "dict_get (if c then dict_set (D ord sd ty pt an kw gv vw ow usd eur stc) ''Rabatt (inkl.)'' r
                   else D ord sd ty pt an kw gv vw ow usd eur stc) ''Rabatt (inkl.)'' x =
           (if c then r else x)"
  by (simp_all add: D_def dict_get_def)

text \<open>The fields of the line item, in terms of the fields of the entry.\<close>

lemma parse_entry_fields:
  assumes "parse_entry net fs exchange e w = (Inr item, w')"
  shows "dict_get item ''Kaufwert'' VNone =
           (if dict_get e ''PlanType'' VNone \<noteq> VStr ''ESPP''
            then dict_get e ''AdjustedCostPerShare'' (VFloat 0)
            else dict_get e ''PurchasePrice'' (VFloat 0))"
    and "if dict_get e ''PlanType'' VNone \<noteq> VStr ''ESPP''
         then py_add (dict_get e ''AdjustedCostPerShare'' VNone)
                     (dict_get e ''GainLossPerShare'' (VFloat 0)) =
                Inr (dict_get item ''Verkaufswert'' VNone) \<and>
              dict_get item ''Gewinn/Verlust'' VNone =
                dict_get e ''GainLossPerShare'' (VFloat 0)
         else dict_get item ''Verkaufswert'' VNone =
                dict_get e ''AdjustedCostPerShare'' (VFloat 0) \<and>
              py_sub (dict_get item ''Verkaufswert'' VNone)
                     (dict_get e ''PurchasePrice'' (VFloat 0)) =
                Inr (dict_get item ''Gewinn/Verlust'' VNone)"
    and "py_mul (dict_get item ''Verkaufswert'' VNone) (dict_get e ''SharesSold'' (VInt 0)) =
           Inr (dict_get item ''Orderwert'' VNone)"
    and "py_mul (dict_get item ''Gewinn/Verlust'' VNone) (dict_get e ''SharesSold'' (VInt 0)) =
           Inr (dict_get item ''KapitalErtrag (USD)'' VNone)"
    and "\<exists>rate.
           (if exchange
            then (\<exists>date. strftime (dict_get e ''SaleDate'' VNone) fmt_ymd = Inr date \<and>
                    get_exchange_trade net date ''USD'' (Some ''EUR'') w = (Inr rate, w'))
            else rate = JNull \<and> w' = w) \<and>
           (if json_truthy rate
            then py_mul_json (dict_get item ''KapitalErtrag (USD)'' VNone) rate =
                   Inr (dict_get item ''KapitalErtrag (EUR)'' VNone)
            else dict_get item ''KapitalErtrag (EUR)'' VNone = VStr ''n/a'')"
    and "dict_get item ''Rabatt (inkl.)'' VNone =
           (if dict_get e ''PlanType'' VNone = VStr ''ESPP'' then VStr ''15%'' else VNone)"
proof -
  from parse_entry_Inr [OF assms] obtain sell gain total_value usd rate eur sd where
    plan: "if dict_get e ''PlanType'' VNone \<noteq> VStr ''ESPP''
      then py_add (dict_get e ''AdjustedCostPerShare'' VNone)
                  (dict_get e ''GainLossPerShare'' (VFloat 0)) = Inr sell
         \<and> gain = dict_get e ''GainLossPerShare'' (VFloat 0)
      else sell = dict_get e ''AdjustedCostPerShare'' (VFloat 0)
         \<and> py_sub sell (dict_get e ''PurchasePrice'' (VFloat 0)) = Inr gain" and
    tv: "py_mul sell (dict_get e ''SharesSold'' (VInt 0)) = Inr total_value" and
    us: "py_mul gain (dict_get e ''SharesSold'' (VInt 0)) = Inr usd" and
    ex: "if exchange
         then (\<exists>date. strftime (dict_get e ''SaleDate'' VNone) fmt_ymd = Inr date
                \<and> get_exchange_trade net date ''USD'' (Some ''EUR'') w = (Inr rate, w'))
         else rate = JNull \<and> w' = w" and
    eu: "if json_truthy rate then py_mul_json usd rate = Inr eur else eur = VStr ''n/a''" and
    item: "item =
         (let d = [(''Order'', VStr (py_str fs (dict_get e ''OrderNumber'' VNone))),
                   (''Verkaufsdatum'', sd),
                   (''Type'', dict_get e ''OrderType'' VNone),
                   (''PlanType'', dict_get e ''PlanType'' VNone),
                   (''Anz.'', dict_get e ''SharesSold'' VNone),
                   (''Kaufwert'',
                      if dict_get e ''PlanType'' VNone \<noteq> VStr ''ESPP''
                      then dict_get e ''AdjustedCostPerShare'' (VFloat 0)
                      else dict_get e ''PurchasePrice'' (VFloat 0)),
                   (''Gewinn/Verlust'', gain),
                   (''Verkaufswert'', sell),
                   (''Orderwert'', total_value),
                   (''KapitalErtrag (USD)'', usd),
                   (''KapitalErtrag (EUR)'', eur),
                   (''is_selltocover'', dict_get e ''is_selltocover'' (VBool False))]
          in if dict_get e ''PlanType'' VNone = VStr ''ESPP''
             then dict_set d ''Rabatt (inkl.)'' (VStr ''15%'') else d)"
    by blast
  have kw: "dict_get item ''Kaufwert'' VNone =
      (if dict_get e ''PlanType'' VNone \<noteq> VStr ''ESPP''
       then dict_get e ''AdjustedCostPerShare'' (VFloat 0)
       else dict_get e ''PurchasePrice'' (VFloat 0))"
    and gv: "dict_get item ''Gewinn/Verlust'' VNone = gain"
    and vw: "dict_get item ''Verkaufswert'' VNone = sell"
    and ow: "dict_get item ''Orderwert'' VNone = total_value"
    and ku: "dict_get item ''KapitalErtrag (USD)'' VNone = usd"
    and ke: "dict_get item ''KapitalErtrag (EUR)'' VNone = eur"
    and ra: "dict_get item ''Rabatt (inkl.)'' VNone =
      (if dict_get e ''PlanType'' VNone = VStr ''ESPP'' then VStr ''15%'' else VNone)"
    unfolding item Let_def by (simp_all only: line_item_get)
  show "dict_get item ''Kaufwert'' VNone =
           (if dict_get e ''PlanType'' VNone \<noteq> VStr ''ESPP''
            then dict_get e ''AdjustedCostPerShare'' (VFloat 0)
            else dict_get e ''PurchasePrice'' (VFloat 0))"
    by (rule kw)
  show "if dict_get e ''PlanType'' VNone \<noteq> VStr ''ESPP''
         then py_add (dict_get e ''AdjustedCostPerShare'' VNone)
                     (dict_get e ''GainLossPerShare'' (VFloat 0)) =
                Inr (dict_get item ''Verkaufswert'' VNone) \<and>
              dict_get item ''Gewinn/Verlust'' VNone =
                dict_get e ''GainLossPerShare'' (VFloat 0)
         else dict_get item ''Verkaufswert'' VNone =
                dict_get e ''AdjustedCostPerShare'' (VFloat 0) \<and>
              py_sub (dict_get item ''Verkaufswert'' VNone)
                     (dict_get e ''PurchasePrice'' (VFloat 0)) =
                Inr (dict_get item ''Gewinn/Verlust'' VNone)"
    using plan unfolding gv vw by (simp split: if_splits)
  show "py_mul (dict_get item ''Verkaufswert'' VNone) (dict_get e ''SharesSold'' (VInt 0)) =
           Inr (dict_get item ''Orderwert'' VNone)"
    unfolding vw ow by (rule tv)
  show "py_mul (dict_get item ''Gewinn/Verlust'' VNone) (dict_get e ''SharesSold'' (VInt 0)) =
           Inr (dict_get item ''KapitalErtrag (USD)'' VNone)"
    unfolding gv ku by (rule us)
  show "\<exists>rate.
           (if exchange
            then (\<exists>date. strftime (dict_get e ''SaleDate'' VNone) fmt_ymd = Inr date \<and>
                    get_exchange_trade net date ''USD'' (Some ''EUR'') w = (Inr rate, w'))
            else rate = JNull \<and> w' = w) \<and>
           (if json_truthy rate
            then py_mul_json (dict_get item ''KapitalErtrag (USD)'' VNone) rate =
                   Inr (dict_get item ''KapitalErtrag (EUR)'' VNone)
            else dict_get item ''KapitalErtrag (EUR)'' VNone = VStr ''n/a'')"
    unfolding ku ke using ex eu by blast
  show "dict_get item ''Rabatt (inkl.)'' VNone =
           (if dict_get e ''PlanType'' VNone = VStr ''ESPP'' then VStr ''15%'' else VNone)"
    by (rule ra)
qed

text \<open>A successful run of the loop has run its body successfully on every entry.\<close>

lemma parse_data_nth:
  "parse_data net fs data exchange w = (Inr items, w') \<Longrightarrow>
   length items = length data \<and>
   (\<forall>i<length data. \<exists>wi wi'.
      parse_entry net fs exchange (data ! i) wi = (Inr (items ! i), wi'))"
proof (induction data arbitrary: w items)
  case Nil
  then show ?case by simp
next
  case (Cons e es)
  from Cons.prems obtain item w1 rest where
    e: "parse_entry net fs exchange e w = (Inr item, w1)" and
    r: "parse_data net fs es exchange w1 = (Inr rest, w')" and
    i: "items = item # rest"
    by (auto split: sum.splits prod.splits)
  from Cons.IH [OF r] have len: "length rest = length es"
    and nth: "\<forall>i<length es. \<exists>wi wi'.
      parse_entry net fs exchange (es ! i) wi = (Inr (rest ! i), wi')"
    by simp_all
  show ?case
  proof (intro conjI allI impI)
    show "length items = length (e # es)" using len i by simp
  next
    fix k assume "k < length (e # es)"
    then show "\<exists>wi wi'.
        parse_entry net fs exchange ((e # es) ! k) wi = (Inr (items ! k), wi')"
      using e nth i by (cases k) auto
  qed
qed

text \<open>
  The state in which an entry is parsed is the state left by the entries before it, and
  the state it leaves is the state after it and them.
\<close>

lemma parse_data_prefix:
  "parse_data net fs data exchange w = (Inr items, w') \<Longrightarrow> i < length data \<Longrightarrow>
   \<exists>wi wi'.
     parse_data net fs (take i data) exchange w = (Inr (take i items), wi) \<and>
     parse_entry net fs exchange (data ! i) wi = (Inr (items ! i), wi') \<and>
     parse_data net fs (take (Suc i) data) exchange w = (Inr (take (Suc i) items), wi')"
proof (induction data arbitrary: w items i)
  case Nil
  then show ?case by simp
next
  case (Cons e es)
  from Cons.prems(1) obtain item w1 rest where
    e: "parse_entry net fs exchange e w = (Inr item, w1)" and
    r: "parse_data net fs es exchange w1 = (Inr rest, w')" and
    i: "items = item # rest"
    by (auto split: sum.splits prod.splits)
  show ?case
  proof (cases i)
    case 0
    with e i show ?thesis by simp
  next
    case (Suc j)
    with Cons.prems(2) have "j < length es" by simp
    from Cons.IH [OF r this] obtain wj wj' where
      a: "parse_data net fs (take j es) exchange w1 = (Inr (take j rest), wj)" and
      b: "parse_entry net fs exchange (es ! j) wj = (Inr (rest ! j), wj')" and
      c: "parse_data net fs (take (Suc j) es) exchange w1 = (Inr (take (Suc j) rest), wj')"
      by blast
    have "parse_data net fs (take i (e # es)) exchange w = (Inr (take i items), wj)"
      using e a i Suc by simp
    moreover have "parse_entry net fs exchange ((e # es) ! i) wj = (Inr (items ! i), wj')"
      using b i Suc by simp
    moreover have "parse_data net fs (take (Suc i) (e # es)) exchange w =
        (Inr (take (Suc i) items), wj')"
      using e c i Suc by simp
    ultimately show ?thesis by blast
  qed
qed

subsection \<open>Without conversion, trade records never fail\<close>





text \<open>Without conversion the state is never touched, whatever the outcome.\<close>

lemma parse_entry_no_exchange:
  "parse_entry net fs False e w = (r, w') \<Longrightarrow> w' = w"
  unfolding parse_entry_def Let_def
  by (auto split: sum.splits if_splits prod.splits)

lemma parse_data_no_exchange:
  "parse_data net fs data False w = (r, w') \<Longrightarrow> w' = w"
proof (induction data arbitrary: r w')
  case Nil
  then show ?case by simp
next
  case (Cons e es)
  obtain r1 w1 where e: "parse_entry net fs False e w = (r1, w1)"
    by (cases "parse_entry net fs False e w")
  then have w1: "w1 = w" by (rule parse_entry_no_exchange)
  obtain r2 w2 where r: "parse_data net fs es False w = (r2, w2)"
    by (cases "parse_data net fs es False w")
  then have w2: "w2 = w" by (rule Cons.IH)
  from Cons.prems e r w1 w2 show ?case by (auto split: sum.splits)
qed

subsection \<open>The ESPP branch\<close>



subsection \<open>The other plan types, and the derived values\<close>



section \<open>Properties of the exchange-rate lookup\<close>

lemma fmt_ymd_example: "fmt_ymd (Timestamp 2023 (Suc 0) 15) = ''2023-01-15''"
  by (simp add: fmt_ymd_def pad2_def show_nat.simps)

text \<open>
  Claim C3 says that a lookup whose fetch fails with a status other than success returns
  null and raises nothing. The code leaves \<^verbatim>\<open>rates\<close> at \<open>None\<close> in that case and then calls
  \<^verbatim>\<open>rates.get(return_currency)\<close> on it: with a target currency, as \<^verbatim>\<open>parse_data\<close> always
  passes one, the lookup raises \<open>AttributeError\<close>. Here on a fresh process, for the
  date 2023-01-15 and the target EUR, when the service answers with status 500.
\<close>

theorem failed_fetch_raises:
  "get_exchange_trade failing_service ''2023-01-15'' ''USD'' (Some ''EUR'') fresh =
     (Inl AttributeError,
      \<lparr>EXCHANGE_CACHE = [],
       requested = [''https://api.frankfurter.app/2023-01-15?base=USD'']\<rparr>)"
  by (simp add: get_exchange_trade_def fresh_def failing_service_def select_rate_def
      CURRENCY_API_def)

text \<open>
  Claim C5 says that every entry yields a line item and that a missing rate (a failed
  lookup or a null sale date) gives the conversion value \<^verbatim>\<open>"n/a"\<close> instead of an error.
  With the conversion on, the code raises in both cases and returns no line item at
  all: \<open>AttributeError\<close> out of the failed lookup, and \<open>ValueError\<close> from
  \<^verbatim>\<open>NaT.strftime\<close> before any lookup is made.
\<close>

theorem no_rate_raises:
  "parse_data failing_service some_float_str [example_rsu] True fresh =
     (Inl AttributeError,
      \<lparr>EXCHANGE_CACHE = [],
       requested = [''https://api.frankfurter.app/2023-01-15?base=USD'']\<rparr>) \<and>
   parse_data rates_service some_float_str [example_nat] True fresh = (Inl ValueError, fresh)"
proof
  have "parse_entry failing_service some_float_str True example_rsu fresh =
     (Inl AttributeError,
      \<lparr>EXCHANGE_CACHE = [],
       requested = [''https://api.frankfurter.app/2023-01-15?base=USD'']\<rparr>)"
    by (simp add: parse_entry_def example_rsu_def dict_get_def py_add_def py_mul_def
        fmt_ymd_example get_exchange_trade_def fresh_def failing_service_def select_rate_def
        CURRENCY_API_def)
  then show "parse_data failing_service some_float_str [example_rsu] True fresh =
     (Inl AttributeError,
      \<lparr>EXCHANGE_CACHE = [],
       requested = [''https://api.frankfurter.app/2023-01-15?base=USD'']\<rparr>)"
    by simp
  have "parse_entry rates_service some_float_str True example_nat fresh =
          (Inl ValueError, fresh)"
    by (simp add: parse_entry_def example_nat_def dict_get_def py_add_def py_mul_def)
  then show "parse_data rates_service some_float_str [example_nat] True fresh =
               (Inl ValueError, fresh)"
    by simp
qed

subsection \<open>The cache\<close>

lemma cache_scan_append:
  "cache_scan (cache @ [d]) date rates =
     (if json_get d ''date'' = JStr date then json_get d ''rates''
      else cache_scan cache date rates)"
  by (induction cache arbitrary: rates) simp_all

text \<open>
  Claim C4 as amended. When a lookup misses the cache, its fetch succeeds, and the
  response carries the requested date string in its own \<^verbatim>\<open>"date"\<close> field, then exactly one
  request is made, and every later lookup for that date (for the same or another target
  currency, whatever the base) is answered from that response without a request and
  without a change of the state; for the same target it returns what the first lookup
  returned.
\<close>

theorem cached_lookup:
  assumes "cache_scan (EXCHANGE_CACHE w) date JNull = JNull"
    and "net (length (requested w)) (CURRENCY_API @ ''/'' @ date @ ''?base='' @ base) = Reply req"
    and "status_code req = 200"
    and "content req = Some (JObj api_return)"
    and "json_get api_return ''rates'' = JObj m"
    and "json_get api_return ''date'' = JStr date"
  shows "\<exists>w1. get_exchange_trade net date base target w = (select_rate (JObj m) target, w1) \<and>
           requested w1 = requested w @ [CURRENCY_API @ ''/'' @ date @ ''?base='' @ base] \<and>
           (\<forall>base' target'.
              get_exchange_trade net date base' target' w1 =
                (select_rate (JObj m) target', w1))"
proof -
  let ?url = "CURRENCY_API @ ''/'' @ date @ ''?base='' @ base"
  let ?w1 = "w\<lparr>requested := requested w @ [?url],
               EXCHANGE_CACHE := EXCHANGE_CACHE w @ [api_return]\<rparr>"
  have first: "get_exchange_trade net date base target w = (select_rate (JObj m) target, ?w1)"
    using assms by (simp add: get_exchange_trade_def Let_def)
  have hit: "cache_scan (EXCHANGE_CACHE ?w1) date JNull = JObj m"
    using assms(5,6) by (simp add: cache_scan_append)
  have later: "get_exchange_trade net date base' target' ?w1 =
                 (select_rate (JObj m) target', ?w1)" for base' target'
    unfolding get_exchange_trade_def Let_def hit by simp
  show ?thesis
    using first later by (intro exI [of _ ?w1]) simp
qed

lemma rates_service_reply:
  "rates_service n url =
     Reply \<lparr>status_code = 200,
            content = Some (JObj [(''amount'', JFloat 1), (''base'', JStr ''USD''),
                                  (''date'', JStr ''2023-01-15''),
                                  (''rates'', JObj [(''EUR'', JFloat 0.92), (''GBP'', JFloat 0.82)])])\<rparr>"
  by (simp add: rates_service_def)

theorem cached_lookup_witness:
  "cache_scan (EXCHANGE_CACHE fresh) ''2023-01-15'' JNull = JNull \<and>
   (\<exists>w1. get_exchange_trade rates_service ''2023-01-15'' ''USD'' (Some ''EUR'') fresh =
            (Inr (JFloat 0.92), w1) \<and>
          requested w1 = [''https://api.frankfurter.app/2023-01-15?base=USD''] \<and>
          get_exchange_trade rates_service ''2023-01-15'' ''USD'' (Some ''EUR'') w1 =
            (Inr (JFloat 0.92), w1) \<and>
          get_exchange_trade rates_service ''2023-01-15'' ''USD'' (Some ''GBP'') w1 =
            (Inr (JFloat 0.82), w1))"
proof -
  let ?m = "[(''EUR'', JFloat 0.92), (''GBP'', JFloat 0.82)]"
  let ?r = "[(''amount'', JFloat 1), (''base'', JStr ''USD''), (''date'', JStr ''2023-01-15''),
             (''rates'', JObj ?m)]"
  have h1: "cache_scan (EXCHANGE_CACHE fresh) ''2023-01-15'' JNull = JNull"
    by (simp add: fresh_def)
  have h2: "rates_service (length (requested fresh))
              (CURRENCY_API @ ''/'' @ ''2023-01-15'' @ ''?base='' @ ''USD'') =
            Reply \<lparr>status_code = 200, content = Some (JObj ?r)\<rparr>"
    by (rule rates_service_reply)
  have h3: "status_code \<lparr>status_code = 200, content = Some (JObj ?r)\<rparr> = 200" by simp
  have h4: "content \<lparr>status_code = 200, content = Some (JObj ?r)\<rparr> = Some (JObj ?r)" by simp
  have h5: "json_get ?r ''rates'' = JObj ?m" by (simp add: json_get_def)
  have h6: "json_get ?r ''date'' = JStr ''2023-01-15''" by (simp add: json_get_def)
  have sel: "select_rate (JObj ?m) (Some ''EUR'') = Inr (JFloat 0.92)"
    "select_rate (JObj ?m) (Some ''GBP'') = Inr (JFloat 0.82)"
    by (simp_all add: select_rate_def json_get_def)
  from cached_lookup [where w = fresh and date = "''2023-01-15''" and net = rates_service
      and base = "''USD''" and target = "Some ''EUR''", OF h1 h2 h3 h4 h5 h6]
  obtain w1 where
    a: "get_exchange_trade rates_service ''2023-01-15'' ''USD'' (Some ''EUR'') fresh =
          (select_rate (JObj ?m) (Some ''EUR''), w1)" and
    b: "requested w1 = requested fresh @ [CURRENCY_API @ ''/'' @ ''2023-01-15'' @ ''?base='' @ ''USD'']" and
    c: "\<And>base' target'. get_exchange_trade rates_service ''2023-01-15'' base' target' w1 =
          (select_rate (JObj ?m) target', w1)"
    by blast
  have b': "requested w1 = [''https://api.frankfurter.app/2023-01-15?base=USD'']"
    using b by (simp add: fresh_def CURRENCY_API_def)
  show ?thesis
    using h1 a b' c [of "''USD''" "Some ''EUR''"] c [of "''USD''" "Some ''GBP''"] sel
    by (intro conjI exI [of _ w1]) simp_all
qed

text \<open>
  Claim C4 as stated fails: the cache is searched by the \<^verbatim>\<open>"date"\<close> field of the stored
  responses, not by the date that was requested. The service answers a request for
  \<^verbatim>\<open>latest\<close> with the date of the last trading day, so two successive lookups for
  \<^verbatim>\<open>latest\<close> both succeed and make two requests.
\<close>

theorem cached_lookup_counterexample:
  "fst (get_exchange_trade latest_service ''latest'' ''USD'' (Some ''EUR'') fresh) =
     Inr (JFloat 0.92) \<and>
   requested
     (snd (get_exchange_trade latest_service ''latest'' ''USD'' (Some ''EUR'')
        (snd (get_exchange_trade latest_service ''latest'' ''USD'' (Some ''EUR'') fresh)))) =
     [''https://api.frankfurter.app/latest?base=USD'',
      ''https://api.frankfurter.app/latest?base=USD'']"
  by (simp add: get_exchange_trade_def fresh_def latest_service_def select_rate_def
      CURRENCY_API_def json_get_def)

section \<open>Properties of the conversion\<close>

text \<open>
  Claim C6 as amended. Without conversion no lookup is made (the state is untouched,
  whatever the outcome) and every line item has \<^verbatim>\<open>"n/a"\<close> as its converted gain. With
  conversion, the line item of entry \<open>i\<close> of a successful run stems from one lookup, made in
  the state that the entries before it have left (the state after parsing \<open>take i data\<close>
  from the initial state) and leaving the state after parsing \<open>take (Suc i) data\<close>; the
  lookup is for the sale date of the entry, formatted as year-month-day, with base USD and
  target EUR. When that lookup returned a value that Python takes as true (for a number:
  other than zero), the converted gain is the gain in USD times that value, and otherwise it
  is \<^verbatim>\<open>"n/a"\<close>.
\<close>

theorem converted_gain:
  "(\<forall>r w'. parse_data net float_str data False w = (r, w') \<longrightarrow>
      w' = w \<and>
      (\<forall>items. r = Inr items \<longrightarrow>
         list_all (\<lambda>item. dict_get item ''KapitalErtrag (EUR)'' VNone = VStr ''n/a'') items)) \<and>
   (\<forall>items w' i. parse_data net float_str data True w = (Inr items, w') \<and> i < length data \<longrightarrow>
      (\<exists>wi wi' date rate.
         parse_data net float_str (take i data) True w = (Inr (take i items), wi) \<and>
         parse_data net float_str (take (Suc i) data) True w =
           (Inr (take (Suc i) items), wi') \<and>
         strftime (dict_get (data ! i) ''SaleDate'' VNone) fmt_ymd = Inr date \<and>
         get_exchange_trade net date ''USD'' (Some ''EUR'') wi = (Inr rate, wi') \<and>
         (if json_truthy rate
          then py_mul_json (dict_get (items ! i) ''KapitalErtrag (USD)'' VNone) rate =
                 Inr (dict_get (items ! i) ''KapitalErtrag (EUR)'' VNone)
          else dict_get (items ! i) ''KapitalErtrag (EUR)'' VNone = VStr ''n/a'')))"
proof (intro conjI allI impI)
  fix r w'
  assume run: "parse_data net float_str data False w = (r, w')"
  then show "w' = w" by (rule parse_data_no_exchange)
  fix items
  assume "r = Inr items"
  with run have run': "parse_data net float_str data False w = (Inr items, w')" by simp
  show "list_all (\<lambda>item. dict_get item ''KapitalErtrag (EUR)'' VNone = VStr ''n/a'') items"
    unfolding list_all_length
  proof (intro allI impI)
    fix n assume "n < length items"
    with parse_data_nth [OF run'] obtain wi wi' where
      "parse_entry net float_str False (data ! n) wi = (Inr (items ! n), wi')"
      by auto
    from parse_entry_fields(5) [OF this]
    show "dict_get (items ! n) ''KapitalErtrag (EUR)'' VNone = VStr ''n/a''"
      by auto
  qed
next
  fix items w' i
  assume a: "parse_data net float_str data True w = (Inr items, w') \<and> i < length data"
  then have run: "parse_data net float_str data True w = (Inr items, w')"
    and i: "i < length data" by simp_all
  from parse_data_prefix [OF run i] obtain wi wi' where
    before: "parse_data net float_str (take i data) True w = (Inr (take i items), wi)" and
    step: "parse_entry net float_str True (data ! i) wi = (Inr (items ! i), wi')" and
    after: "parse_data net float_str (take (Suc i) data) True w =
              (Inr (take (Suc i) items), wi')"
    by (elim exE conjE)
  from parse_entry_fields(5) [OF step] have
    "\<exists>rate.
       (\<exists>date. strftime (dict_get (data ! i) ''SaleDate'' VNone) fmt_ymd = Inr date \<and>
          get_exchange_trade net date ''USD'' (Some ''EUR'') wi = (Inr rate, wi')) \<and>
       (if json_truthy rate
        then py_mul_json (dict_get (items ! i) ''KapitalErtrag (USD)'' VNone) rate =
               Inr (dict_get (items ! i) ''KapitalErtrag (EUR)'' VNone)
        else dict_get (items ! i) ''KapitalErtrag (EUR)'' VNone = VStr ''n/a'')"
    by simp
  then obtain rate date where
    d: "strftime (dict_get (data ! i) ''SaleDate'' VNone) fmt_ymd = Inr date" and
    g: "get_exchange_trade net date ''USD'' (Some ''EUR'') wi = (Inr rate, wi')" and
    m: "if json_truthy rate
        then py_mul_json (dict_get (items ! i) ''KapitalErtrag (USD)'' VNone) rate =
               Inr (dict_get (items ! i) ''KapitalErtrag (EUR)'' VNone)
        else dict_get (items ! i) ''KapitalErtrag (EUR)'' VNone = VStr ''n/a''"
    by (elim exE conjE)
  show "\<exists>wi wi' date rate.
         parse_data net float_str (take i data) True w = (Inr (take i items), wi) \<and>
         parse_data net float_str (take (Suc i) data) True w =
           (Inr (take (Suc i) items), wi') \<and>
         strftime (dict_get (data ! i) ''SaleDate'' VNone) fmt_ymd = Inr date \<and>
         get_exchange_trade net date ''USD'' (Some ''EUR'') wi = (Inr rate, wi') \<and>
         (if json_truthy rate
          then py_mul_json (dict_get (items ! i) ''KapitalErtrag (USD)'' VNone) rate =
                 Inr (dict_get (items ! i) ''KapitalErtrag (EUR)'' VNone)
          else dict_get (items ! i) ''KapitalErtrag (EUR)'' VNone = VStr ''n/a'')"
    by (intro exI [of _ wi] exI [of _ wi'] exI [of _ date] exI [of _ rate] conjI
        before after d g m)
qed

lemma parse_entry_example_off:
  "parse_entry net fs False example_rsu w =
     (Inr [(''Order'', VStr ''1''), (''Verkaufsdatum'', VDate (Timestamp 2023 1 15)),
           (''Type'', VStr ''Sale''), (''PlanType'', VStr ''RSU''), (''Anz.'', VInt 10),
           (''Kaufwert'', VFloat 20), (''Gewinn/Verlust'', VFloat 5),
           (''Verkaufswert'', VFloat 25), (''Orderwert'', VFloat 250),
           (''KapitalErtrag (USD)'', VFloat 50), (''KapitalErtrag (EUR)'', VStr ''n/a''),
           (''is_selltocover'', VBool False)], w)"
  by (simp add: parse_entry_def example_rsu_def dict_get_def dict_item_def py_add_def
      py_mul_def)

lemma parse_entry_example_on:
  "parse_entry rates_service fs True example_rsu fresh =
     (Inr [(''Order'', VStr ''1''), (''Verkaufsdatum'', VDate (Timestamp 2023 1 15)),
           (''Type'', VStr ''Sale''), (''PlanType'', VStr ''RSU''), (''Anz.'', VInt 10),
           (''Kaufwert'', VFloat 20), (''Gewinn/Verlust'', VFloat 5),
           (''Verkaufswert'', VFloat 25), (''Orderwert'', VFloat 250),
           (''KapitalErtrag (USD)'', VFloat 50), (''KapitalErtrag (EUR)'', VFloat 46),
           (''is_selltocover'', VBool False)],
      \<lparr>EXCHANGE_CACHE =
         [[(''amount'', JFloat 1), (''base'', JStr ''USD''), (''date'', JStr ''2023-01-15''),
           (''rates'', JObj [(''EUR'', JFloat 0.92), (''GBP'', JFloat 0.82)])]],
       requested = [''https://api.frankfurter.app/2023-01-15?base=USD'']\<rparr>)"
  by (simp add: parse_entry_def example_rsu_def dict_get_def dict_item_def py_add_def
      py_mul_def fmt_ymd_example get_exchange_trade_def fresh_def rates_service_def
      select_rate_def CURRENCY_API_def json_get_def)

text \<open>The second lookup for the same date is answered from the cache, with no request.\<close>

lemma get_exchange_trade_example_cached:
  "get_exchange_trade rates_service ''2023-01-15'' ''USD'' (Some ''EUR'')
     \<lparr>EXCHANGE_CACHE =
         [[(''amount'', JFloat 1), (''base'', JStr ''USD''), (''date'', JStr ''2023-01-15''),
           (''rates'', JObj [(''EUR'', JFloat 0.92), (''GBP'', JFloat 0.82)])]],
       requested = [''https://api.frankfurter.app/2023-01-15?base=USD'']\<rparr> =
   (Inr (JFloat 0.92),
     \<lparr>EXCHANGE_CACHE =
         [[(''amount'', JFloat 1), (''base'', JStr ''USD''), (''date'', JStr ''2023-01-15''),
           (''rates'', JObj [(''EUR'', JFloat 0.92), (''GBP'', JFloat 0.82)])]],
       requested = [''https://api.frankfurter.app/2023-01-15?base=USD'']\<rparr>)"
  by (simp add: get_exchange_trade_def select_rate_def json_get_def)

lemma parse_entry_example_cached:
  "parse_entry rates_service fs True example_rsu
     \<lparr>EXCHANGE_CACHE =
         [[(''amount'', JFloat 1), (''base'', JStr ''USD''), (''date'', JStr ''2023-01-15''),
           (''rates'', JObj [(''EUR'', JFloat 0.92), (''GBP'', JFloat 0.82)])]],
       requested = [''https://api.frankfurter.app/2023-01-15?base=USD'']\<rparr> =
     (Inr [(''Order'', VStr ''1''), (''Verkaufsdatum'', VDate (Timestamp 2023 1 15)),
           (''Type'', VStr ''Sale''), (''PlanType'', VStr ''RSU''), (''Anz.'', VInt 10),
           (''Kaufwert'', VFloat 20), (''Gewinn/Verlust'', VFloat 5),
           (''Verkaufswert'', VFloat 25), (''Orderwert'', VFloat 250),
           (''KapitalErtrag (USD)'', VFloat 50), (''KapitalErtrag (EUR)'', VFloat 46),
           (''is_selltocover'', VBool False)],
      \<lparr>EXCHANGE_CACHE =
         [[(''amount'', JFloat 1), (''base'', JStr ''USD''), (''date'', JStr ''2023-01-15''),
           (''rates'', JObj [(''EUR'', JFloat 0.92), (''GBP'', JFloat 0.82)])]],
       requested = [''https://api.frankfurter.app/2023-01-15?base=USD'']\<rparr>)"
  by (simp add: parse_entry_def example_rsu_def dict_get_def dict_item_def py_add_def
      py_mul_def fmt_ymd_example get_exchange_trade_def
      select_rate_def json_get_def)

theorem converted_gain_witness:
  "parse_data rates_service some_float_str [example_rsu, example_rsu] True fresh =
     (Inr [[(''Order'', VStr ''1''), (''Verkaufsdatum'', VDate (Timestamp 2023 1 15)),
            (''Type'', VStr ''Sale''), (''PlanType'', VStr ''RSU''), (''Anz.'', VInt 10),
            (''Kaufwert'', VFloat 20), (''Gewinn/Verlust'', VFloat 5),
            (''Verkaufswert'', VFloat 25), (''Orderwert'', VFloat 250),
            (''KapitalErtrag (USD)'', VFloat 50), (''KapitalErtrag (EUR)'', VFloat 46),
            (''is_selltocover'', VBool False)],
           [(''Order'', VStr ''1''), (''Verkaufsdatum'', VDate (Timestamp 2023 1 15)),
            (''Type'', VStr ''Sale''), (''PlanType'', VStr ''RSU''), (''Anz.'', VInt 10),
            (''Kaufwert'', VFloat 20), (''Gewinn/Verlust'', VFloat 5),
            (''Verkaufswert'', VFloat 25), (''Orderwert'', VFloat 250),
            (''KapitalErtrag (USD)'', VFloat 50), (''KapitalErtrag (EUR)'', VFloat 46),
            (''is_selltocover'', VBool False)]],
      \<lparr>EXCHANGE_CACHE =
         [[(''amount'', JFloat 1), (''base'', JStr ''USD''), (''date'', JStr ''2023-01-15''),
           (''rates'', JObj [(''EUR'', JFloat 0.92), (''GBP'', JFloat 0.82)])]],
       requested = [''https://api.frankfurter.app/2023-01-15?base=USD'']\<rparr>) \<and>
   (1::nat) < length [example_rsu, example_rsu] \<and>
   snd (parse_data rates_service some_float_str (take 1 [example_rsu, example_rsu]) True fresh) =
      \<lparr>EXCHANGE_CACHE =
         [[(''amount'', JFloat 1), (''base'', JStr ''USD''), (''date'', JStr ''2023-01-15''),
           (''rates'', JObj [(''EUR'', JFloat 0.92), (''GBP'', JFloat 0.82)])]],
       requested = [''https://api.frankfurter.app/2023-01-15?base=USD'']\<rparr> \<and>
   (\<exists>rate.
      get_exchange_trade rates_service ''2023-01-15'' ''USD'' (Some ''EUR'')
        (snd (parse_data rates_service some_float_str (take 1 [example_rsu, example_rsu])
           True fresh)) =
        (Inr rate,
         snd (parse_data rates_service some_float_str (take 2 [example_rsu, example_rsu])
           True fresh)) \<and>
      rate = JFloat 0.92 \<and>
      json_truthy rate \<and>
      py_mul_json (VFloat 50) rate = Inr (VFloat 46))"
proof -
  let ?on = "[(''Order'', VStr ''1''), (''Verkaufsdatum'', VDate (Timestamp 2023 1 15)),
            (''Type'', VStr ''Sale''), (''PlanType'', VStr ''RSU''), (''Anz.'', VInt 10),
            (''Kaufwert'', VFloat 20), (''Gewinn/Verlust'', VFloat 5),
            (''Verkaufswert'', VFloat 25), (''Orderwert'', VFloat 250),
            (''KapitalErtrag (USD)'', VFloat 50), (''KapitalErtrag (EUR)'', VFloat 46),
            (''is_selltocover'', VBool False)]"
  let ?w = "\<lparr>EXCHANGE_CACHE =
         [[(''amount'', JFloat 1), (''base'', JStr ''USD''), (''date'', JStr ''2023-01-15''),
           (''rates'', JObj [(''EUR'', JFloat 0.92), (''GBP'', JFloat 0.82)])]],
       requested = [''https://api.frankfurter.app/2023-01-15?base=USD'']\<rparr>"
  let ?data = "[example_rsu, example_rsu]"
  have on: "parse_data rates_service some_float_str ?data True fresh = (Inr [?on, ?on], ?w)"
    unfolding parse_data.simps parse_entry_example_on prod.case sum.case
      parse_entry_example_cached
    by (rule refl)
  have one: "parse_data rates_service some_float_str (take 1 ?data) True fresh =
               (Inr [?on], ?w)"
    by (simp add: parse_entry_example_on)
  have two: "parse_data rates_service some_float_str (take 2 ?data) True fresh =
               (Inr [?on, ?on], ?w)"
    using on by simp
  have len: "(1::nat) < length ?data" by simp
  have date: "strftime (dict_get (?data ! 1) ''SaleDate'' VNone) fmt_ymd =
                Inr ''2023-01-15''"
    by (simp add: example_rsu_def dict_get_def fmt_ymd_example)
  have usd: "dict_get ([?on, ?on] ! 1) ''KapitalErtrag (USD)'' VNone = VFloat 50"
    and eur: "dict_get ([?on, ?on] ! 1) ''KapitalErtrag (EUR)'' VNone = VFloat 46"
    by (simp_all add: dict_get_def)
  note cg = converted_gain [of rates_service some_float_str ?data fresh,
      THEN conjunct2, rule_format, of "[?on, ?on]" ?w 1]
  from cg [OF conjI [OF on len]]
  obtain wi wi' date rate where
    b: "parse_data rates_service some_float_str (take 1 ?data) True fresh =
          (Inr (take 1 [?on, ?on]), wi)" and
    a: "parse_data rates_service some_float_str (take (Suc 1) ?data) True fresh =
          (Inr (take (Suc 1) [?on, ?on]), wi')" and
    d: "strftime (dict_get (?data ! 1) ''SaleDate'' VNone) fmt_ymd = Inr date" and
    g: "get_exchange_trade rates_service date ''USD'' (Some ''EUR'') wi = (Inr rate, wi')" and
    m: "if json_truthy rate
        then py_mul_json (dict_get ([?on, ?on] ! 1) ''KapitalErtrag (USD)'' VNone) rate =
               Inr (dict_get ([?on, ?on] ! 1) ''KapitalErtrag (EUR)'' VNone)
        else dict_get ([?on, ?on] ! 1) ''KapitalErtrag (EUR)'' VNone = VStr ''n/a''"
    by (elim exE conjE)
  from d date have date': "date = ''2023-01-15''" by simp
  from b one have wi: "wi = ?w" by simp
  have "Suc 1 = (2::nat)" by simp
  with a two have wi': "wi' = ?w" by simp
  from g have g': "get_exchange_trade rates_service ''2023-01-15'' ''USD'' (Some ''EUR'') ?w =
      (Inr rate, ?w)"
    unfolding date' wi wi' .
  then have rate: "rate = JFloat 0.92"
    unfolding get_exchange_trade_example_cached by simp
  from m have t: "json_truthy rate" and p: "py_mul_json (VFloat 50) rate = Inr (VFloat 46)"
    unfolding usd eur by (simp_all split: if_splits)
  have s1: "snd (parse_data rates_service some_float_str (take 1 ?data) True fresh) = ?w"
    unfolding one by simp
  have s2: "snd (parse_data rates_service some_float_str (take 2 ?data) True fresh) = ?w"
    unfolding two by simp
  have "\<exists>rate.
      get_exchange_trade rates_service ''2023-01-15'' ''USD'' (Some ''EUR'')
        (snd (parse_data rates_service some_float_str (take 1 ?data) True fresh)) =
        (Inr rate,
         snd (parse_data rates_service some_float_str (take 2 ?data) True fresh)) \<and>
      rate = JFloat 0.92 \<and>
      json_truthy rate \<and>
      py_mul_json (VFloat 50) rate = Inr (VFloat 46)"
    unfolding s1 s2 using g' rate t p by (intro exI [of _ rate] conjI)
  with on len s1 show ?thesis by (intro conjI)
qed

text \<open>
  Claim C6 as stated fails for a rate of zero. The service returns the EUR rate 0.0; the
  lookup finds it, and the converted gain is \<^verbatim>\<open>"n/a"\<close> instead of 50 times 0.
\<close>

theorem converted_gain_counterexample:
  "fst (get_exchange_trade zero_service ''2023-01-15'' ''USD'' (Some ''EUR'') fresh) =
     Inr (JFloat 0) \<and>
   fst (parse_data zero_service some_float_str [example_rsu] True fresh) =
     Inr [[(''Order'', VStr ''1''), (''Verkaufsdatum'', VDate (Timestamp 2023 1 15)),
           (''Type'', VStr ''Sale''), (''PlanType'', VStr ''RSU''), (''Anz.'', VInt 10),
           (''Kaufwert'', VFloat 20), (''Gewinn/Verlust'', VFloat 5),
           (''Verkaufswert'', VFloat 25), (''Orderwert'', VFloat 250),
           (''KapitalErtrag (USD)'', VFloat 50), (''KapitalErtrag (EUR)'', VStr ''n/a''),
           (''is_selltocover'', VBool False)]] \<and>
   VStr ''n/a'' \<noteq> VFloat (50 * 0)"
proof (intro conjI)
  show "fst (get_exchange_trade zero_service ''2023-01-15'' ''USD'' (Some ''EUR'') fresh) =
          Inr (JFloat 0)"
    by (simp add: get_exchange_trade_def fresh_def zero_service_def select_rate_def
        CURRENCY_API_def json_get_def)
  have "fst (parse_entry zero_service some_float_str True example_rsu fresh) =
     Inr [(''Order'', VStr ''1''), (''Verkaufsdatum'', VDate (Timestamp 2023 1 15)),
           (''Type'', VStr ''Sale''), (''PlanType'', VStr ''RSU''), (''Anz.'', VInt 10),
           (''Kaufwert'', VFloat 20), (''Gewinn/Verlust'', VFloat 5),
           (''Verkaufswert'', VFloat 25), (''Orderwert'', VFloat 250),
           (''KapitalErtrag (USD)'', VFloat 50), (''KapitalErtrag (EUR)'', VStr ''n/a''),
           (''is_selltocover'', VBool False)]"
    by (simp add: parse_entry_def example_rsu_def dict_get_def dict_item_def py_add_def
        py_mul_def fmt_ymd_example get_exchange_trade_def fresh_def zero_service_def
        select_rate_def CURRENCY_API_def json_get_def)
  then show "fst (parse_data zero_service some_float_str [example_rsu] True fresh) =
     Inr [[(''Order'', VStr ''1''), (''Verkaufsdatum'', VDate (Timestamp 2023 1 15)),
           (''Type'', VStr ''Sale''), (''PlanType'', VStr ''RSU''), (''Anz.'', VInt 10),
           (''Kaufwert'', VFloat 20), (''Gewinn/Verlust'', VFloat 5),
           (''Verkaufswert'', VFloat 25), (''Orderwert'', VFloat 250),
           (''KapitalErtrag (USD)'', VFloat 50), (''KapitalErtrag (EUR)'', VStr ''n/a''),
           (''is_selltocover'', VBool False)]]"
    by (cases "parse_entry zero_service some_float_str True example_rsu fresh") simp
  show "VStr ''n/a'' \<noteq> VFloat (50 * 0)" by simp
qed

section \<open>Properties of the normaliser\<close>

lemma str_contains_sublist: "str_contains sub s = sublist sub s"
  by (induction s) (simp_all add: sublist_Cons_right)

text \<open>
  Claim C8 as amended. For every row of the data frame, the record has
  \<^verbatim>\<open>is_selltocover\<close> true exactly when the text of the order type (as \<^verbatim>\<open>str\<close> gives it)
  contains the three characters \<^verbatim>\<open>STC\<close> next to each other.
\<close>

theorem sell_to_cover_flag:
  "map (\<lambda>record. dict_get record ''is_selltocover'' VNone) (read_csv float_str df) =
   map (\<lambda>row. VBool (sublist ''STC'' (py_str float_str (col_OrderType row)))) df"
proof -
  have "dict_get (row_record float_str row) ''is_selltocover'' VNone =
          VBool (str_contains ''STC'' (py_str float_str (col_OrderType row)))" for row
    by (simp add: row_record_def dict_get_def)
  then have "dict_get (row_record float_str row) ''is_selltocover'' VNone =
          VBool (sublist ''STC'' (py_str float_str (col_OrderType row)))" for row
    by (simp only: str_contains_sublist)
  then show ?thesis by (simp add: read_csv_def)
qed

text \<open>
  Claim C8 as stated fails in its example: the text \<^verbatim>\<open>Sale to Cover\<close> does not contain
  \<^verbatim>\<open>STC\<close>, so a row with that order type is not marked as sell-to-cover.
\<close>

theorem sell_to_cover_counterexample:
  "dict_get (row_record some_float_str (example_row\<lparr>col_OrderType := VStr ''Sale to Cover''\<rparr>))
     ''is_selltocover'' VNone = VBool False"
  by (simp add: row_record_def dict_get_def example_row_def prefix_def)

section \<open>Properties of grouping and rendering\<close>

subsection \<open>Dictionaries\<close>

lemma dict_get_dict_set: "dict_get (dict_set d k v) k x = v"
  by (induction d) (auto simp: dict_get_def)

lemma dict_get_dict_set_other: "k' \<noteq> k \<Longrightarrow> dict_get (dict_set d k v) k' x = dict_get d k' x"
  by (induction d) (auto simp: dict_get_def)

lemma dict_item_get: "dict_item d k = Inr v \<Longrightarrow> dict_get d k x = v"
  by (auto simp: dict_item_def dict_get_def split: option.splits)

subsection \<open>One step of the grouping loop\<close>

lemma group_step_Inr:
  assumes "group_step fy i a g h = (Inr g1, h1)"
  shows "(\<exists>t. dict_get (h a) ''Verkaufsdatum'' VNone = VDate t \<and>
            year_excluded fy (ts_year t) \<and> h1 = h \<and> g1 = g) \<or>
         (dict_get (h a) ''Verkaufsdatum'' VNone = VNaT \<and> filter_active fy \<and>
            h1 = h \<and> g1 = g) \<or>
         (\<exists>t plan_type. dict_get (h a) ''Verkaufsdatum'' VNone = VDate t \<and>
            \<not> year_excluded fy (ts_year t) \<and>
            h1 = h(a := dict_set (h a) ''Verkaufsdatum'' (VStr (fmt_dmy t))) \<and>
            g1 = grouped_add g (ts_year t) plan_type a)"
proof (cases "dict_item (h a) ''Verkaufsdatum''")
  case (Inl e)
  with assms show ?thesis by (simp add: group_step_def)
next
  case (Inr d)
  then have get: "dict_get (h a) ''Verkaufsdatum'' VNone = d" by (rule dict_item_get)
  show ?thesis
  proof (cases d)
    case (VDate t)
    show ?thesis
    proof (cases "year_excluded fy (ts_year t)")
      case True
      with assms Inr VDate get show ?thesis by (simp add: group_step_def)
    next
      case False
      with assms Inr VDate get show ?thesis
        by (auto simp: group_step_def Let_def split: sum.splits)
    qed
  next
    case VNaT
    with assms Inr get show ?thesis by (simp add: group_step_def split: if_splits)
  qed (use assms Inr in \<open>simp_all add: group_step_def\<close>)
qed

subsection \<open>The effect of the loop on the store\<close>

lemma group_entries_store:
  "group_entries fy i as g h = (Inr g1, h1) \<Longrightarrow>
   (if a \<in> set as then date_rewritten fy (h a) (h1 a) else h1 a = h a)"
proof (induction as arbitrary: i g h)
  case Nil
  then show ?case by simp
next
  case (Cons b bs)
  from Cons.prems obtain g' h' where
    step: "group_step fy i b g h = (Inr g', h')" and
    rest: "group_entries fy (Suc i) bs g' h' = (Inr g1, h1)"
    by (auto split: sum.splits prod.splits)
  note IH = Cons.IH [OF rest]
  from group_step_Inr [OF step] consider
    (skip_date) t where "dict_get (h b) ''Verkaufsdatum'' VNone = VDate t"
      "year_excluded fy (ts_year t)" "h' = h"
  | (skip_nat) "dict_get (h b) ''Verkaufsdatum'' VNone = VNaT" "filter_active fy" "h' = h"
  | (pass) t where "dict_get (h b) ''Verkaufsdatum'' VNone = VDate t"
      "\<not> year_excluded fy (ts_year t)"
      "h' = h(b := dict_set (h b) ''Verkaufsdatum'' (VStr (fmt_dmy t)))"
    by blast
  then show ?case
  proof cases
    case skip_date
    then have "date_rewritten fy (h b) (h b)" by (simp add: date_rewritten_def)
    with IH skip_date(3) show ?thesis by (auto split: if_splits)
  next
    case skip_nat
    then have "date_rewritten fy (h b) (h b)" by (simp add: date_rewritten_def)
    with IH skip_nat(3) show ?thesis by (auto split: if_splits)
  next
    case pass
    have new: "date_rewritten fy (h b) (h' b)"
      using pass by (simp add: date_rewritten_def)
    have again: "\<not> date_rewritten fy (h' b) e" for e
      using pass(3) by (simp add: date_rewritten_def dict_get_dict_set)
    show ?thesis
    proof (cases "a = b")
      case True
      show ?thesis
      proof (cases "b \<in> set bs")
        case True
        with IH \<open>a = b\<close> again show ?thesis by simp
      next
        case False
        with IH \<open>a = b\<close> new show ?thesis by simp
      qed
    next
      case False
      with pass(3) have "h' a = h a" by simp
      with IH False show ?thesis by (auto split: if_splits)
    qed
  qed
qed

text \<open>
  Whatever the outcome of the loop, also an exception, a dictionary is either as it was
  or it belongs to the list and had its date rewritten.
\<close>

lemma group_step_any:
  assumes "group_step fy i a g h = (r, h1)"
  shows "h1 = h \<or>
         (\<exists>t. dict_get (h a) ''Verkaufsdatum'' VNone = VDate t \<and>
            \<not> year_excluded fy (ts_year t) \<and>
            h1 = h(a := dict_set (h a) ''Verkaufsdatum'' (VStr (fmt_dmy t))))"
proof (cases "dict_item (h a) ''Verkaufsdatum''")
  case (Inl e)
  with assms show ?thesis by (simp add: group_step_def)
next
  case (Inr d)
  then have get: "dict_get (h a) ''Verkaufsdatum'' VNone = d" by (rule dict_item_get)
  show ?thesis
  proof (cases d)
    case (VDate t)
    with assms Inr get show ?thesis
      by (auto simp: group_step_def Let_def split: sum.splits if_splits)
  next
    case VNaT
    with assms Inr get show ?thesis by (simp add: group_step_def split: if_splits)
  qed (use assms Inr in \<open>simp_all add: group_step_def\<close>)
qed

lemma group_entries_any:
  "group_entries fy i as g h = (r, h1) \<Longrightarrow>
   h1 a = h a \<or> (a \<in> set as \<and> date_rewritten fy (h a) (h1 a))"
proof (induction as arbitrary: i g h)
  case Nil
  then show ?case by simp
next
  case (Cons b bs)
  obtain r' h' where step: "group_step fy i b g h = (r', h')"
    by (cases "group_step fy i b g h")
  from group_step_any [OF step] consider
    (same) "h' = h"
  | (pass) t where "dict_get (h b) ''Verkaufsdatum'' VNone = VDate t"
      "\<not> year_excluded fy (ts_year t)"
      "h' = h(b := dict_set (h b) ''Verkaufsdatum'' (VStr (fmt_dmy t)))"
    by blast
  then have first: "h' a = h a \<or> (a = b \<and> date_rewritten fy (h a) (h' a))"
  proof cases
    case same
    then show ?thesis by simp
  next
    case pass
    then show ?thesis by (cases "a = b") (simp_all add: date_rewritten_def)
  qed
  have again: "a = b \<Longrightarrow> h' a \<noteq> h a \<Longrightarrow> \<not> date_rewritten fy (h' a) e" for e
    using group_step_any [OF step]
    by (auto simp: date_rewritten_def dict_get_dict_set)
  show ?case
  proof (cases r')
    case (Inl e)
    with Cons.prems step have "h1 = h'" by simp
    with first show ?thesis by auto
  next
    case (Inr g')
    with Cons.prems step have "group_entries fy (Suc i) bs g' h' = (r, h1)" by simp
    from Cons.IH [OF this] have
      "h1 a = h' a \<or> (a \<in> set bs \<and> date_rewritten fy (h' a) (h1 a))" .
    with first again show ?thesis by (cases "h' a = h a") auto
  qed
qed

subsection \<open>The groups\<close>

text \<open>No group is empty, and every address in a group was added to it.\<close>

lemma plans_add_snd:
  "refs \<in> snd ` set (plans_add ps p a) \<Longrightarrow>
   refs \<in> snd ` set ps \<or> refs = [a] \<or> (\<exists>r \<in> snd ` set ps. refs = r @ [a])"
proof (induction ps)
  case Nil
  then show ?case by simp
next
  case (Cons kr ps)
  obtain k recs where kr: "kr = (k, recs)" by (cases kr)
  show ?case
  proof (cases "py_eq k p")
    case True
    with Cons.prems kr have "refs = recs @ [a] \<or> refs \<in> snd ` set ps" by auto
    with kr show ?thesis by auto
  next
    case False
    with Cons.prems kr have "refs = recs \<or> refs \<in> snd ` set (plans_add ps p a)" by auto
    with Cons.IH kr show ?thesis by auto
  qed
qed

lemma grouped_add_groups:
  "refs \<in> set (groups_of (grouped_add g y p a)) \<Longrightarrow>
   refs \<in> set (groups_of g) \<or> refs = [a] \<or> (\<exists>r \<in> set (groups_of g). refs = r @ [a])"
proof (induction g)
  case Nil
  then show ?case by (simp add: groups_of_def)
next
  case (Cons yp g)
  obtain y' ps where yp: "yp = (y', ps)" by (cases yp)
  have split: "set (groups_of ((y0, qs) # g0)) = snd ` set qs \<union> set (groups_of g0)"
    for qs y0 g0
    by (simp add: groups_of_def)
  show ?case
  proof (cases "y' = y")
    case True
    with Cons.prems yp have "refs \<in> snd ` set (plans_add ps p a) \<or> refs \<in> set (groups_of g)"
      by (simp add: split)
    then show ?thesis
      using plans_add_snd [of refs ps p a] unfolding yp split by blast
  next
    case False
    with Cons.prems yp have "refs \<in> snd ` set ps \<or> refs \<in> set (groups_of (grouped_add g y p a))"
      by (simp add: split)
    then show ?thesis
      using Cons.IH unfolding yp split by blast
  qed
qed

lemma group_entries_inv:
  "group_entries fy i as g h = (Inr g1, h1) \<Longrightarrow>
   \<forall>refs \<in> set (groups_of g). refs \<noteq> [] \<and> set refs \<subseteq> S \<Longrightarrow>
   \<forall>refs \<in> set (groups_of g1). refs \<noteq> [] \<and> set refs \<subseteq> S \<union> set as"
proof (induction as arbitrary: i g h S)
  case Nil
  then show ?case by simp
next
  case (Cons b bs)
  from Cons.prems(1) obtain g' h' where
    step: "group_step fy i b g h = (Inr g', h')" and
    rest: "group_entries fy (Suc i) bs g' h' = (Inr g1, h1)"
    by (auto split: sum.splits prod.splits)
  from group_step_Inr [OF step] have
    "g' = g \<or> (\<exists>y p. g' = grouped_add g y p b)" by blast
  then have "\<forall>refs \<in> set (groups_of g'). refs \<noteq> [] \<and> set refs \<subseteq> insert b S"
  proof
    assume "g' = g"
    with Cons.prems(2) show ?thesis by blast
  next
    assume "\<exists>y p. g' = grouped_add g y p b"
    then obtain y p where g': "g' = grouped_add g y p b" by blast
    show ?thesis
    proof
      fix refs assume "refs \<in> set (groups_of g')"
      from grouped_add_groups [OF this [unfolded g']] Cons.prems(2)
      show "refs \<noteq> [] \<and> set refs \<subseteq> insert b S" by fastforce
    qed
  qed
  from Cons.IH [OF rest this] show ?case by simp
qed

lemma group_tables_groups:
  "r \<in> set (group_tables cur fs ef et h g) \<Longrightarrow>
   \<exists>year plan_type refs. refs \<in> set (groups_of g) \<and>
      r = make_table cur fs ef et year plan_type (map h refs)"
  by (fastforce simp: group_tables_def groups_of_def)

lemma collect_Inr: "collect rs = Inr xs \<Longrightarrow> rs = map Inr xs"
proof (induction rs arbitrary: xs)
  case Nil
  then show ?case by simp
next
  case (Cons r rs)
  then show ?case by (cases r) (auto split: sum.splits)
qed

lemma collect_map_Inr: "collect (map Inr xs) = Inr xs"
  by (induction xs) simp_all

subsection \<open>The sum of a column\<close>

lemma foldl_num_add:
  "foldl num_add n ns =
     (if is_int_num n \<and> list_all is_int_num ns
      then NInt (int_of_num n + sum_list (map int_of_num ns))
      else NFloat (num_real n + sum_list (map num_real ns)))"
proof (induction ns arbitrary: n)
  case Nil
  then show ?case by (cases n) simp_all
next
  case (Cons x xs)
  show ?case
  proof (cases n)
    case (NInt a)
    then show ?thesis by (cases x) (simp_all add: Cons.IH)
  next
    case (NFloat r)
    then show ?thesis by (cases x) (simp_all add: Cons.IH)
  qed
qed

lemma as_num_of_num: "as_num (of_num n) = Some n"
  by (cases n) simp_all

lemma as_num_counted: "as_num (if as_num x \<noteq> None then x else VInt 0) = Some (counted x)"
  by (auto simp: counted_def)

text \<open>Python's sum over the column never fails, and adds the counted numbers from the left.\<close>

lemma py_sum_counted:
  "py_sum (of_num n) (map (\<lambda>x. if as_num x \<noteq> None then x else VInt 0) vs) =
     Inr (of_num (foldl num_add n (map counted vs)))"
proof (induction vs arbitrary: n)
  case Nil
  then show ?case by simp
next
  case (Cons v vs)
  have "py_add (of_num n) (if as_num v \<noteq> None then v else VInt 0) =
          Inr (of_num (num_add n (counted v)))"
    unfolding py_add_def as_num_of_num as_num_counted by simp
  then show ?case using Cons.IH [of "num_add n (counted v)"] by simp
qed

lemma py_sum_column:
  "py_sum (VInt 0)
     (map (\<lambda>x. if as_num x \<noteq> None then x else VInt 0)
        (map (\<lambda>record. dict_get record field (VInt 0)) records)) =
   Inr (column_total records field)"
proof -
  have "py_sum (of_num (NInt 0))
     (map (\<lambda>x. if as_num x \<noteq> None then x else VInt 0)
        (map (\<lambda>record. dict_get record field (VInt 0)) records)) =
     Inr (of_num (foldl num_add (NInt 0)
        (map counted (map (\<lambda>record. dict_get record field (VInt 0)) records))))"
    by (rule py_sum_counted)
  then show ?thesis
    by (simp add: foldl_num_add column_total_def Let_def comp_def)
qed

lemma total_cell_eq:
  "total_cell cur fs et records field =
     Inr (if field \<in> set et then VStr ''''
          else VStr (format_value cur fs (column_total records field)))"
  unfolding total_cell_def Let_def py_sum_column by simp

subsection \<open>The table of a group\<close>

lemma make_table_eq:
  assumes "records \<noteq> []"
  shows "make_table cur fs ef et year plan_type records =
     Inr \<lparr>field_names = columns_of ef (hd records),
          table_rows =
            map (\<lambda>record.
                   [VInt (int year), plan_type] @
                   map (\<lambda>field. VStr (format_value cur fs (dict_get record field (VStr ''''))))
                       (drop 2 (columns_of ef (hd records))))
                records @
            [map (\<lambda>field. VStr ''----'') (columns_of ef (hd records)),
             [VStr ''Total'', VStr ''''] @
             map (\<lambda>field. if field \<in> set et then VStr ''''
                           else VStr (format_value cur fs (column_total records field)))
                 (drop 2 (columns_of ef (hd records)))]\<rparr>"
proof -
  from assms obtain first rest where records: "records = first # rest"
    by (cases records) auto
  have names: "[''Year'', ''PlanType''] @
      filter (\<lambda>key. key \<notin> set ([''Year'', ''PlanType''] @ ef)) (map fst first) =
      columns_of ef first"
    by (simp add: columns_of_def)
  have totals: "collect (map (total_cell cur fs et records) fields) =
      Inr (map (\<lambda>field. if field \<in> set et then VStr ''''
                         else VStr (format_value cur fs (column_total records field))) fields)"
    for fields
  proof -
    have "map (total_cell cur fs et records) fields =
      map Inr (map (\<lambda>field. if field \<in> set et then VStr ''''
                         else VStr (format_value cur fs (column_total records field))) fields)"
      by (simp add: total_cell_eq)
    then show ?thesis by (simp only: collect_map_Inr)
  qed
  show ?thesis
    unfolding make_table_def Let_def records list.case names
    by (simp add: totals [unfolded records])
qed

lemma refs_of_set: "set (refs_of data) = {a. DictRef a \<in> set data}"
  by (induction data rule: refs_of.induct) auto

text \<open>Every table that the generator returns is the table of a group that is not empty.\<close>

lemma generate_groups:
  assumes "generate_pretty_table_with_hierarchy cur fs data fy ef et h = (Inr tables, h1)"
  shows "group_entries fy 0 (refs_of data) [] h \<in> {(Inr g, h1) | g. True}"
    and "t \<in> set tables \<Longrightarrow>
         \<exists>year plan_type refs. refs \<noteq> [] \<and> set refs \<subseteq> set (refs_of data) \<and>
           make_table cur fs (effective_exclude ef)
             (case et of None \<Rightarrow> default_exclude_total | Some fs \<Rightarrow> fs)
             year plan_type (map h1 refs) = Inr t"
proof -
  from assms obtain g where
    grp: "group_entries fy 0 (refs_of data) [] h = (Inr g, h1)" and
    col: "collect (group_tables cur fs (effective_exclude ef)
            (case et of None \<Rightarrow> default_exclude_total | Some fs \<Rightarrow> fs) h1 g) = Inr tables"
    unfolding generate_pretty_table_with_hierarchy_def
    by (auto split: if_splits sum.splits prod.splits)
  from grp show "group_entries fy 0 (refs_of data) [] h \<in> {(Inr g, h1) | g. True}" by simp
  assume "t \<in> set tables"
  with collect_Inr [OF col] have
    "Inr t \<in> set (group_tables cur fs (effective_exclude ef)
        (case et of None \<Rightarrow> default_exclude_total | Some fs \<Rightarrow> fs) h1 g)"
    by simp
  from group_tables_groups [OF this] obtain year plan_type refs where
    refs: "refs \<in> set (groups_of g)" and
    t: "Inr t = make_table cur fs (effective_exclude ef)
          (case et of None \<Rightarrow> default_exclude_total | Some fs \<Rightarrow> fs)
          year plan_type (map h1 refs)"
    by blast
  have init: "\<forall>refs \<in> set (groups_of []). refs \<noteq> [] \<and> set refs \<subseteq> {}"
    by (simp add: groups_of_def)
  from group_entries_inv [OF grp init] refs
  have "refs \<noteq> [] \<and> set refs \<subseteq> set (refs_of data)"
    by simp
  with t show "\<exists>year plan_type refs. refs \<noteq> [] \<and> set refs \<subseteq> set (refs_of data) \<and>
           make_table cur fs (effective_exclude ef)
             (case et of None \<Rightarrow> default_exclude_total | Some fs \<Rightarrow> fs)
             year plan_type (map h1 refs) = Inr t"
    by metis
qed

text \<open>
  The tables come in the order of the groups: the table at position \<open>j\<close> is the table of the
  group at position \<open>j\<close>.
\<close>

lemma group_tables_Cons:
  "group_tables cur fs ef et h ((year, plans) # g) =
     map (\<lambda>(plan_type, records). make_table cur fs ef et year plan_type (map h records)) plans @
     group_tables cur fs ef et h g"
  by (simp add: group_tables_def)

lemma groups_of_Cons: "groups_of ((year, plans) # g) = map snd plans @ groups_of g"
  by (simp add: groups_of_def)

lemma group_tables_length:
  "length (group_tables cur fs ef et h g) = length (groups_of g)"
proof (induction g)
  case Nil
  then show ?case by (simp add: group_tables_def groups_of_def)
next
  case (Cons yp g)
  obtain year plans where yp: "yp = (year, plans)" by (cases yp)
  show ?case unfolding yp group_tables_Cons groups_of_Cons using Cons.IH by simp
qed

lemma group_tables_nth:
  "j < length (groups_of g) \<Longrightarrow>
   \<exists>year plan_type.
     group_tables cur fs ef et h g ! j =
       make_table cur fs ef et year plan_type (map h (groups_of g ! j))"
proof (induction g arbitrary: j)
  case Nil
  then show ?case by (simp add: groups_of_def)
next
  case (Cons yp g)
  obtain year plans where yp: "yp = (year, plans)" by (cases yp)
  let ?f = "\<lambda>(plan_type, records). make_table cur fs ef et year plan_type (map h records)"
  show ?case
  proof (cases "j < length plans")
    case True
    then have "group_tables cur fs ef et h (yp # g) ! j = ?f (plans ! j)"
      unfolding yp group_tables_Cons by (simp add: nth_append)
    moreover from True have "groups_of (yp # g) ! j = snd (plans ! j)"
      unfolding yp groups_of_Cons by (simp add: nth_append)
    ultimately have
      "group_tables cur fs ef et h (yp # g) ! j =
         make_table cur fs ef et year (fst (plans ! j)) (map h (groups_of (yp # g) ! j))"
      by (simp add: case_prod_beta)
    then show ?thesis by blast
  next
    case False
    with Cons.prems have rest: "j - length plans < length (groups_of g)"
      unfolding yp groups_of_Cons by simp
    from False have "group_tables cur fs ef et h (yp # g) ! j =
        group_tables cur fs ef et h g ! (j - length plans)"
      unfolding yp group_tables_Cons by (simp add: nth_append)
    moreover from False have "groups_of (yp # g) ! j = groups_of g ! (j - length plans)"
      unfolding yp groups_of_Cons by (simp add: nth_append)
    ultimately show ?thesis using Cons.IH [OF rest] by simp
  qed
qed

lemma generate_tables:
  assumes "generate_pretty_table_with_hierarchy cur fs data fy ef et h = (Inr tables, h1)"
  shows "\<exists>g. group_entries fy 0 (refs_of data) [] h = (Inr g, h1) \<and>
           length tables = length (groups_of g) \<and>
           (\<forall>j<length tables.
              groups_of g ! j \<noteq> [] \<and> set (groups_of g ! j) \<subseteq> set (refs_of data) \<and>
              (\<exists>year plan_type.
                 make_table cur fs (effective_exclude ef)
                   (case et of None \<Rightarrow> default_exclude_total | Some fs \<Rightarrow> fs)
                   year plan_type (map h1 (groups_of g ! j)) = Inr (tables ! j)))"
proof -
  let ?et = "case et of None \<Rightarrow> default_exclude_total | Some fs \<Rightarrow> fs"
  from assms obtain g where
    grp: "group_entries fy 0 (refs_of data) [] h = (Inr g, h1)" and
    col: "collect (group_tables cur fs (effective_exclude ef) ?et h1 g) = Inr tables"
    unfolding generate_pretty_table_with_hierarchy_def
    by (auto split: if_splits sum.splits prod.splits)
  note tabs = collect_Inr [OF col]
  from arg_cong [OF tabs, of length] have len: "length tables = length (groups_of g)"
    by (simp add: group_tables_length)
  have init: "\<forall>refs \<in> set (groups_of []). refs \<noteq> [] \<and> set refs \<subseteq> {}"
    by (simp add: groups_of_def)
  note inv = group_entries_inv [OF grp init]
  have "groups_of g ! j \<noteq> [] \<and> set (groups_of g ! j) \<subseteq> set (refs_of data) \<and>
        (\<exists>year plan_type.
           make_table cur fs (effective_exclude ef) ?et
             year plan_type (map h1 (groups_of g ! j)) = Inr (tables ! j))"
    if j: "j < length tables" for j
  proof -
    from j len have j': "j < length (groups_of g)" by simp
    then have "groups_of g ! j \<in> set (groups_of g)" by simp
    with inv have a: "groups_of g ! j \<noteq> [] \<and> set (groups_of g ! j) \<subseteq> set (refs_of data)"
      by simp
    from group_tables_nth [OF j'] obtain year plan_type where
      e: "group_tables cur fs (effective_exclude ef) ?et h1 g ! j =
         make_table cur fs (effective_exclude ef) ?et year plan_type
           (map h1 (groups_of g ! j))"
      by blast
    have "make_table cur fs (effective_exclude ef) ?et year plan_type
           (map h1 (groups_of g ! j)) = map Inr tables ! j"
      using e unfolding tabs by (rule sym)
    also from j have "\<dots> = Inr (tables ! j)" by simp
    finally show ?thesis using a by blast
  qed
  with grp len show ?thesis by blast
qed

subsection \<open>The example of the specification\<close>

text \<open>
  Two RSU line items of 2022 and one of 2023, rendered with the year filter 2022: the
  loop rewrites the dates of the first two and leaves the third alone, and there is one
  group.
\<close>

lemma group_example:
  "group_entries (Some 2022) 0 [0, 1, 2] [] example_heap =
     (Inr [(2022, [(VStr ''RSU'', [0, 1])])],
      example_heap
        (0 := dict_set (example_heap 0) ''Verkaufsdatum'' (VStr ''01.03.2022''),
         1 := dict_set (example_heap 1) ''Verkaufsdatum'' (VStr ''30.06.2022'')))"
  by (simp add: group_step_def example_heap_def line_item_def dict_item_def year_excluded_def
      fmt_dmy_def pad2_def show_nat.simps py_eq_def Let_def)

lemma generate_example:
  "generate_pretty_table_with_hierarchy some_currency some_float_str
     [DictRef 0, DictRef 1, DictRef 2] (Some 2022) None None example_heap =
   (Inr [\<lparr>field_names =
           [''Year'', ''PlanType'', ''Order'', ''Verkaufsdatum'', ''Type'', ''Anz.'',
            ''Kaufwert'', ''Gewinn/Verlust'', ''Verkaufswert'', ''Orderwert'',
            ''KapitalErtrag (USD)'', ''KapitalErtrag (EUR)''],
          table_rows =
           [[VInt 2022, VStr ''RSU'', VStr ''1'', VStr ''01.03.2022'', VStr ''Sale'',
             VStr ''10'', VStr ''<currency>'', VStr ''<currency>'', VStr ''<currency>'',
             VStr ''<currency>'', VStr ''50,00'', VStr ''n/a''],
            [VInt 2022, VStr ''RSU'', VStr ''2'', VStr ''30.06.2022'', VStr ''Sale'',
             VStr ''10'', VStr ''<currency>'', VStr ''<currency>'', VStr ''<currency>'',
             VStr ''<currency>'', VStr ''50,00'', VStr ''n/a''],
            [VStr ''----'', VStr ''----'', VStr ''----'', VStr ''----'', VStr ''----'',
             VStr ''----'', VStr ''----'', VStr ''----'', VStr ''----'', VStr ''----'',
             VStr ''----'', VStr ''----''],
            [VStr ''Total'', VStr '''', VStr '''', VStr '''', VStr '''', VStr ''20'',
             VStr ''<currency>'', VStr '''', VStr ''50,00'', VStr ''<currency>'',
             VStr ''100,00'', VStr ''0'']]\<rparr>],
    example_heap
      (0 := dict_set (example_heap 0) ''Verkaufsdatum'' (VStr ''01.03.2022''),
       1 := dict_set (example_heap 1) ''Verkaufsdatum'' (VStr ''30.06.2022'')))"
proof -
  have refs: "refs_of [DictRef 0, DictRef 1, DictRef 2] = [0, 1, 2]" by simp
  show ?thesis
    unfolding generate_pretty_table_with_hierarchy_def refs group_example
    by (simp add: group_tables_def make_table_def total_cell_def Let_def
      effective_exclude_def default_exclude_fields_def default_exclude_total_def
      example_heap_def line_item_def dict_get_def format_value_def some_currency_def
        py_add_def show_int_def show_nat.simps)
qed

subsection \<open>The totals row\<close>

lemma nth_after_two:
  assumes "2 \<le> k" and "k < length names"
  shows "([a, b] @ map f (drop 2 names)) ! k = f (names ! k)"
proof -
  from assms(1) obtain j where k: "k = j + 2"
    by (metis add.commute le_Suc_ex)
  with assms(2) show ?thesis by (simp add: nth_append)
qed

text \<open>
  Claim C7. Every table that the generator returns belongs to a group of entries of the
  input that is not empty. The table has one row per entry of the group, the separator
  row and the totals row. In every column but the first two, the data rows show the
  formatted values of the entries, and the totals row shows the empty text when the
  column is in the total-exclusion list and otherwise the formatted sum of the raw values
  of the column over the entries of the group, a value that is not a number counting as
  0.
\<close>

theorem totals_row:
  assumes "generate_pretty_table_with_hierarchy currency float_str data filter_year
             exclude_fields exclude_total h = (Inr tables, h1)"
    and "t \<in> set tables"
    and "2 \<le> k"
    and "k < length (field_names t)"
  shows "\<exists>refs. refs \<noteq> [] \<and> set refs \<subseteq> set (refs_of data) \<and>
           length (table_rows t) = length refs + 2 \<and>
           (\<forall>i<length refs.
              table_rows t ! i ! k =
                VStr (format_value currency float_str
                        (dict_get (h1 (refs ! i)) (field_names t ! k) (VStr '''')))) \<and>
           last (table_rows t) ! k =
             (if field_names t ! k \<in>
                   set (case exclude_total of None \<Rightarrow> default_exclude_total | Some fs \<Rightarrow> fs)
              then VStr ''''
              else VStr (format_value currency float_str
                           (column_total (map h1 refs) (field_names t ! k))))"
proof -
  let ?et = "case exclude_total of None \<Rightarrow> default_exclude_total | Some fs \<Rightarrow> fs"
  from generate_groups(2) [OF assms(1,2)] obtain year plan_type refs where
    ne: "refs \<noteq> []" and sub: "set refs \<subseteq> set (refs_of data)" and
    mk: "make_table currency float_str (effective_exclude exclude_fields) ?et
           year plan_type (map h1 refs) = Inr t"
    by blast
  let ?names = "columns_of (effective_exclude exclude_fields) (hd (map h1 refs))"
  let ?row = "\<lambda>record. [VInt (int year), plan_type] @
     map (\<lambda>field. VStr (format_value currency float_str (dict_get record field (VStr ''''))))
         (drop 2 ?names)"
  let ?totals = "[VStr ''Total'', VStr ''''] @
     map (\<lambda>field. if field \<in> set ?et then VStr ''''
                   else VStr (format_value currency float_str
                                (column_total (map h1 refs) field)))
         (drop 2 ?names)"
  from ne have "map h1 refs \<noteq> []" by simp
  from make_table_eq [OF this] mk have
    names: "field_names t = ?names" and
    rows: "table_rows t = map ?row (map h1 refs) @ [map (\<lambda>field. VStr ''----'') ?names, ?totals]"
    by auto
  from assms(4) names have klen: "k < length ?names" by simp
  have len: "length (table_rows t) = length refs + 2"
    unfolding rows by simp
  have data: "table_rows t ! i ! k =
      VStr (format_value currency float_str
              (dict_get (h1 (refs ! i)) (field_names t ! k) (VStr '''')))"
    if "i < length refs" for i
  proof -
    from that have "table_rows t ! i = ?row (h1 (refs ! i))"
      unfolding rows by (simp add: nth_append)
    then show ?thesis
      by (simp only: nth_after_two [OF assms(3) klen] names)
  qed
  have "last (table_rows t) = ?totals"
    unfolding rows by simp
  then have tot: "last (table_rows t) ! k =
      (if field_names t ! k \<in> set ?et then VStr ''''
       else VStr (format_value currency float_str
                    (column_total (map h1 refs) (field_names t ! k))))"
    by (simp only: nth_after_two [OF assms(3) klen] names)
  from ne sub len data tot show ?thesis by blast
qed

theorem totals_row_witness:
  "(\<exists>t h1.
      generate_pretty_table_with_hierarchy some_currency some_float_str
        [DictRef 0, DictRef 1, DictRef 2] (Some 2022) None None example_heap =
        (Inr [t], h1) \<and>
      t \<in> set [t] \<and> (2::nat) \<le> 10 \<and> 10 < length (field_names t) \<and>
      field_names t ! 10 = ''KapitalErtrag (USD)'' \<and>
      length (table_rows t) = 4 \<and>
      table_rows t ! 0 ! 10 = VStr ''50,00'' \<and>
      table_rows t ! 1 ! 10 = VStr ''50,00'' \<and>
      last (table_rows t) ! 10 = VStr ''100,00'' \<and>
      column_total [h1 0, h1 1] ''KapitalErtrag (USD)'' = VFloat 100 \<and>
      (\<exists>refs. refs \<noteq> [] \<and> set refs \<subseteq> {0, 1, 2} \<and>
         last (table_rows t) ! 10 =
           VStr (format_value some_currency some_float_str
                   (column_total (map h1 refs) ''KapitalErtrag (USD)''))))"
proof -
  let ?t = "\<lparr>field_names =
           [''Year'', ''PlanType'', ''Order'', ''Verkaufsdatum'', ''Type'', ''Anz.'',
            ''Kaufwert'', ''Gewinn/Verlust'', ''Verkaufswert'', ''Orderwert'',
            ''KapitalErtrag (USD)'', ''KapitalErtrag (EUR)''],
          table_rows =
           [[VInt 2022, VStr ''RSU'', VStr ''1'', VStr ''01.03.2022'', VStr ''Sale'',
             VStr ''10'', VStr ''<currency>'', VStr ''<currency>'', VStr ''<currency>'',
             VStr ''<currency>'', VStr ''50,00'', VStr ''n/a''],
            [VInt 2022, VStr ''RSU'', VStr ''2'', VStr ''30.06.2022'', VStr ''Sale'',
             VStr ''10'', VStr ''<currency>'', VStr ''<currency>'', VStr ''<currency>'',
             VStr ''<currency>'', VStr ''50,00'', VStr ''n/a''],
            [VStr ''----'', VStr ''----'', VStr ''----'', VStr ''----'', VStr ''----'',
             VStr ''----'', VStr ''----'', VStr ''----'', VStr ''----'', VStr ''----'',
             VStr ''----'', VStr ''----''],
            [VStr ''Total'', VStr '''', VStr '''', VStr '''', VStr '''', VStr ''20'',
             VStr ''<currency>'', VStr '''', VStr ''50,00'', VStr ''<currency>'',
             VStr ''100,00'', VStr ''0'']]\<rparr>"
  let ?h1 = "example_heap
      (0 := dict_set (example_heap 0) ''Verkaufsdatum'' (VStr ''01.03.2022''),
       1 := dict_set (example_heap 1) ''Verkaufsdatum'' (VStr ''30.06.2022''))"
  have gen: "generate_pretty_table_with_hierarchy some_currency some_float_str
        [DictRef 0, DictRef 1, DictRef 2] (Some 2022) None None example_heap =
        (Inr [?t], ?h1)"
    by (rule generate_example)
  have mem: "?t \<in> set [?t]" by simp
  have two: "(2::nat) \<le> 10" by simp
  have ten: "10 < length (field_names ?t)" by simp
  have name: "field_names ?t ! 10 = ''KapitalErtrag (USD)''" by simp
  have cells: "length (table_rows ?t) = 4" "table_rows ?t ! 0 ! 10 = VStr ''50,00''"
    "table_rows ?t ! 1 ! 10 = VStr ''50,00''" "last (table_rows ?t) ! 10 = VStr ''100,00''"
    by simp_all
  have total: "column_total [?h1 0, ?h1 1] ''KapitalErtrag (USD)'' = VFloat 100"
    by (simp add: column_total_def counted_def example_heap_def line_item_def dict_get_def)
  from totals_row [OF gen mem two ten] obtain refs where
    ne: "refs \<noteq> []" and sub: "set refs \<subseteq> set (refs_of [DictRef 0, DictRef 1, DictRef 2])" and
    tot: "last (table_rows ?t) ! 10 =
             (if field_names ?t ! 10 \<in>
                   set (case None of None \<Rightarrow> default_exclude_total | Some fs \<Rightarrow> fs)
              then VStr ''''
              else VStr (format_value some_currency some_float_str
                           (column_total (map ?h1 refs) (field_names ?t ! 10))))"
    by blast
  from sub have sub': "set refs \<subseteq> {0, 1, 2}" by auto
  from tot have tot': "last (table_rows ?t) ! 10 =
      VStr (format_value some_currency some_float_str
              (column_total (map ?h1 refs) ''KapitalErtrag (USD)''))"
    unfolding name by (simp add: default_exclude_total_def)
  from ne sub' tot' have ex:
    "\<exists>refs. refs \<noteq> [] \<and> set refs \<subseteq> {0, 1, 2} \<and>
         last (table_rows ?t) ! 10 =
           VStr (format_value some_currency some_float_str
                   (column_total (map ?h1 refs) ''KapitalErtrag (USD)''))"
    by blast
  show ?thesis
    by (intro exI [of _ ?t] exI [of _ ?h1] conjI gen mem two ten name cells total ex)
qed

subsection \<open>The columns\<close>

text \<open>
  Claim C9 as amended. The columns excluded from every table are \<^verbatim>\<open>is_selltocover\<close>
  together with the exclusion list that the caller passes, and together with
  \<^verbatim>\<open>PurchasePrice\<close> only when the caller passes none. A successful call returns one table
  for each group that the grouping loop has built, in the order of the groups; no group is
  empty and its members are dictionaries of the input, in the order of the input. The
  column list of the table at position \<open>j\<close> is \<^verbatim>\<open>Year\<close>, \<^verbatim>\<open>PlanType\<close>, followed by the keys
  of the first entry of the group at position \<open>j\<close> (as the loop has left that entry in the
  store) without \<^verbatim>\<open>Year\<close>, \<^verbatim>\<open>PlanType\<close> and the excluded columns; the table has one row
  for each entry of that group, a separator row and a totals row.
\<close>

theorem table_columns:
  "effective_exclude None = [''PurchasePrice'', ''is_selltocover''] \<and>
   (\<forall>extra. effective_exclude (Some extra) = extra @ [''is_selltocover'']) \<and>
   (\<forall>tables h1.
      generate_pretty_table_with_hierarchy currency float_str data filter_year
        exclude_fields exclude_total h = (Inr tables, h1) \<longrightarrow>
      (\<exists>grouped_data.
         group_entries filter_year 0 (refs_of data) [] h = (Inr grouped_data, h1) \<and>
         length tables = length (groups_of grouped_data) \<and>
         (\<forall>j<length tables.
            groups_of grouped_data ! j \<noteq> [] \<and>
            set (groups_of grouped_data ! j) \<subseteq> set (refs_of data) \<and>
            length (table_rows (tables ! j)) = length (groups_of grouped_data ! j) + 2 \<and>
            field_names (tables ! j) =
              columns_of (effective_exclude exclude_fields)
                (h1 (hd (groups_of grouped_data ! j))))))"
proof (intro conjI allI impI)
  show "effective_exclude None = [''PurchasePrice'', ''is_selltocover'']"
    by (simp add: effective_exclude_def default_exclude_fields_def)
  show "effective_exclude (Some extra) = extra @ [''is_selltocover'']" for extra
    by (simp add: effective_exclude_def)
  fix tables h1
  assume gen: "generate_pretty_table_with_hierarchy currency float_str data filter_year
        exclude_fields exclude_total h = (Inr tables, h1)"
  let ?et = "case exclude_total of None \<Rightarrow> default_exclude_total | Some fs \<Rightarrow> fs"
  from generate_tables [OF gen] obtain g where
    grp: "group_entries filter_year 0 (refs_of data) [] h = (Inr g, h1)" and
    len: "length tables = length (groups_of g)" and
    tab: "\<forall>j<length tables.
            groups_of g ! j \<noteq> [] \<and> set (groups_of g ! j) \<subseteq> set (refs_of data) \<and>
            (\<exists>year plan_type.
               make_table currency float_str (effective_exclude exclude_fields) ?et
                 year plan_type (map h1 (groups_of g ! j)) = Inr (tables ! j))"
    by (elim exE conjE)
  have "groups_of g ! j \<noteq> [] \<and>
        set (groups_of g ! j) \<subseteq> set (refs_of data) \<and>
        length (table_rows (tables ! j)) = length (groups_of g ! j) + 2 \<and>
        field_names (tables ! j) =
          columns_of (effective_exclude exclude_fields) (h1 (hd (groups_of g ! j)))"
    if j: "j < length tables" for j
  proof -
    from tab j obtain year plan_type where
      ne: "groups_of g ! j \<noteq> []" and
      sub: "set (groups_of g ! j) \<subseteq> set (refs_of data)" and
      mk: "make_table currency float_str (effective_exclude exclude_fields) ?et
             year plan_type (map h1 (groups_of g ! j)) = Inr (tables ! j)"
      by blast
    define t where "t = tables ! j"
    from mk have mk': "make_table currency float_str (effective_exclude exclude_fields) ?et
             year plan_type (map h1 (groups_of g ! j)) = Inr t"
      by (simp add: t_def)
    from ne have "map h1 (groups_of g ! j) \<noteq> []" by simp
    from make_table_eq [OF this] mk' ne have
      "field_names t =
         columns_of (effective_exclude exclude_fields) (h1 (hd (groups_of g ! j)))"
      and "length (table_rows t) = length (groups_of g ! j) + 2"
      by (auto simp: hd_map)
    with ne sub show ?thesis unfolding t_def by simp
  qed
  then have "\<forall>j<length tables.
        groups_of g ! j \<noteq> [] \<and>
        set (groups_of g ! j) \<subseteq> set (refs_of data) \<and>
        length (table_rows (tables ! j)) = length (groups_of g ! j) + 2 \<and>
        field_names (tables ! j) =
          columns_of (effective_exclude exclude_fields) (h1 (hd (groups_of g ! j)))"
    by blast
  with grp len
  show "\<exists>grouped_data.
         group_entries filter_year 0 (refs_of data) [] h = (Inr grouped_data, h1) \<and>
         length tables = length (groups_of grouped_data) \<and>
         (\<forall>j<length tables.
            groups_of grouped_data ! j \<noteq> [] \<and>
            set (groups_of grouped_data ! j) \<subseteq> set (refs_of data) \<and>
            length (table_rows (tables ! j)) = length (groups_of grouped_data ! j) + 2 \<and>
            field_names (tables ! j) =
              columns_of (effective_exclude exclude_fields)
                (h1 (hd (groups_of grouped_data ! j))))"
    by (intro exI [of _ g] conjI)
qed

text \<open>
  An entry with five keys and a line item, both RSU sales of 2023, rendered with the
  exclusion list \<^verbatim>\<open>["Order", "Verkaufsdatum"]\<close> of the caller: there is one group, the
  entry with five keys is its first member, and the columns are those of that entry.
\<close>

lemma group_example_mixed:
  "group_entries None 0 [3, 2] [] example_heap =
     (Inr [(2023, [(VStr ''RSU'', [3, 2])])],
      example_heap
        (3 := dict_set (example_heap 3) ''Verkaufsdatum'' (VStr ''15.01.2023''),
         2 := dict_set (example_heap 2) ''Verkaufsdatum'' (VStr ''15.01.2023'')))"
  by (simp add: group_step_def example_heap_def line_item_def dict_item_def year_excluded_def
      fmt_dmy_def pad2_def show_nat.simps py_eq_def Let_def)

theorem table_columns_witness:
  "\<exists>tables h1 grouped_data.
      generate_pretty_table_with_hierarchy some_currency some_float_str
        [DictRef 3, DictRef 2] None (Some [''Order'', ''Verkaufsdatum'']) None example_heap =
        (Inr tables, h1) \<and>
      group_entries None 0 [3, 2] [] example_heap = (Inr grouped_data, h1) \<and>
      groups_of grouped_data = [[3, 2]] \<and>
      length tables = 1 \<and>
      effective_exclude (Some [''Order'', ''Verkaufsdatum'']) =
        [''Order'', ''Verkaufsdatum'', ''is_selltocover''] \<and>
      map fst (h1 3) =
        [''Order'', ''Verkaufsdatum'', ''PlanType'', ''PurchasePrice'', ''is_selltocover''] \<and>
      map fst (h1 2) =
        [''Order'', ''Verkaufsdatum'', ''Type'', ''PlanType'', ''Anz.'', ''Kaufwert'',
         ''Gewinn/Verlust'', ''Verkaufswert'', ''Orderwert'', ''KapitalErtrag (USD)'',
         ''KapitalErtrag (EUR)'', ''is_selltocover''] \<and>
      length (table_rows (tables ! 0)) = 4 \<and>
      field_names (tables ! 0) =
        columns_of [''Order'', ''Verkaufsdatum'', ''is_selltocover''] (h1 3) \<and>
      field_names (tables ! 0) = [''Year'', ''PlanType'', ''PurchasePrice'']"
proof -
  let ?h1 = "example_heap
        (3 := dict_set (example_heap 3) ''Verkaufsdatum'' (VStr ''15.01.2023''),
         2 := dict_set (example_heap 2) ''Verkaufsdatum'' (VStr ''15.01.2023''))"
  let ?g = "[(2023::nat, [(VStr ''RSU'', [3::nat, 2])])]"
  let ?E = "[''Order'', ''Verkaufsdatum'']"
  have refs: "refs_of [DictRef 3, DictRef 2] = [3, 2]" by simp
  have "\<exists>t. generate_pretty_table_with_hierarchy some_currency some_float_str
        [DictRef 3, DictRef 2] None (Some ?E) None example_heap = (Inr [t], ?h1)"
    unfolding generate_pretty_table_with_hierarchy_def refs group_example_mixed
    by (simp add: group_tables_def make_table_eq)
  then obtain t where
    gen: "generate_pretty_table_with_hierarchy some_currency some_float_str
        [DictRef 3, DictRef 2] None (Some ?E) None example_heap = (Inr [t], ?h1)"
    by blast
  note tc = table_columns [of some_currency some_float_str "[DictRef 3, DictRef 2]"
      None "Some ?E" None example_heap]
  from tc [THEN conjunct2, THEN conjunct1, rule_format, of ?E]
  have eff: "effective_exclude (Some ?E) = [''Order'', ''Verkaufsdatum'', ''is_selltocover'']"
    by simp
  from tc [THEN conjunct2, THEN conjunct2, rule_format, OF gen]
  obtain g where
    grp: "group_entries None 0 (refs_of [DictRef 3, DictRef 2]) [] example_heap =
            (Inr g, ?h1)" and
    all: "\<forall>j<length [t].
            groups_of g ! j \<noteq> [] \<and>
            set (groups_of g ! j) \<subseteq> set (refs_of [DictRef 3, DictRef 2]) \<and>
            length (table_rows ([t] ! j)) = length (groups_of g ! j) + 2 \<and>
            field_names ([t] ! j) =
              columns_of (effective_exclude (Some ?E)) (?h1 (hd (groups_of g ! j)))"
    by (elim exE conjE)
  from grp have g: "g = ?g" unfolding refs group_example_mixed by simp
  have groups: "groups_of ?g = [[3, 2]]" by (simp add: groups_of_def)
  from all have
    rows: "length (table_rows ([t] ! 0)) = 4" and
    cols: "field_names ([t] ! 0) =
             columns_of [''Order'', ''Verkaufsdatum'', ''is_selltocover''] (?h1 3)"
    unfolding g groups eff by simp_all
  have k3: "map fst (?h1 3) =
      [''Order'', ''Verkaufsdatum'', ''PlanType'', ''PurchasePrice'', ''is_selltocover'']"
    by (simp add: example_heap_def)
  have k2: "map fst (?h1 2) =
      [''Order'', ''Verkaufsdatum'', ''Type'', ''PlanType'', ''Anz.'', ''Kaufwert'',
       ''Gewinn/Verlust'', ''Verkaufswert'', ''Orderwert'', ''KapitalErtrag (USD)'',
       ''KapitalErtrag (EUR)'', ''is_selltocover'']"
    by (simp add: example_heap_def line_item_def)
  have names: "field_names ([t] ! 0) = [''Year'', ''PlanType'', ''PurchasePrice'']"
    unfolding cols columns_of_def k3 by simp
  have len: "length [t] = 1" by simp
  show ?thesis
    by (intro exI [of _ "[t]"] exI [of _ ?h1] exI [of _ ?g] conjI
        gen group_example_mixed groups len eff k3 k2 rows cols names)
qed

text \<open>
  Claim C9 as stated fails: a caller who passes an exclusion list replaces the default
  \<^verbatim>\<open>PurchasePrice\<close> instead of adding to it. With the list \<^verbatim>\<open>["Order"]\<close> the column
  \<^verbatim>\<open>PurchasePrice\<close> of the entry is rendered.
\<close>

theorem table_columns_counterexample:
  "fst (generate_pretty_table_with_hierarchy some_currency some_float_str
          [DictRef 3] None (Some [''Order'']) None example_heap) =
     Inr [\<lparr>field_names = [''Year'', ''PlanType'', ''Verkaufsdatum'', ''PurchasePrice''],
           table_rows =
             [[VInt 2023, VStr ''RSU'', VStr ''15.01.2023'', VStr ''<currency>''],
              [VStr ''----'', VStr ''----'', VStr ''----'', VStr ''----''],
              [VStr ''Total'', VStr '''', VStr '''', VStr ''<currency>'']]\<rparr>]"
proof -
  have grp: "group_entries None 0 [3] [] example_heap =
     (Inr [(2023, [(VStr ''RSU'', [3])])],
      example_heap (3 := dict_set (example_heap 3) ''Verkaufsdatum'' (VStr ''15.01.2023'')))"
    by (simp add: group_step_def example_heap_def dict_item_def year_excluded_def
        fmt_dmy_def pad2_def show_nat.simps Let_def)
  have refs: "refs_of [DictRef 3] = [3]" by simp
  show ?thesis
    unfolding generate_pretty_table_with_hierarchy_def refs grp
    by (simp add: group_tables_def make_table_def total_cell_def Let_def
        effective_exclude_def default_exclude_total_def
        example_heap_def dict_get_def format_value_def some_currency_def
        py_add_def show_int_def show_nat.simps)
qed

subsection \<open>The dates in the caller's list\<close>

text \<open>
  Claim C10. The generator works in place on the dictionaries of the caller's list.
  Whatever its outcome, a dictionary is either as it was, or it belongs to the list and
  its date under \<^verbatim>\<open>Verkaufsdatum\<close> has been replaced by the day.month.year text, nothing
  else in it being changed. When the generator returns, this has happened to every entry
  of the list that passed the year filter, and every entry that the filter excluded still
  has its structured date.
\<close>

theorem dates_overwritten:
  assumes "generate_pretty_table_with_hierarchy currency float_str data filter_year
             exclude_fields exclude_total h = (r, h1)"
  shows "(h1 a = h a \<or> (DictRef a \<in> set data \<and> date_rewritten filter_year (h a) (h1 a))) \<and>
         (\<forall>tables. r = Inr tables \<longrightarrow>
            (if DictRef a \<in> set data then date_rewritten filter_year (h a) (h1 a)
             else h1 a = h a))"
proof
  show "h1 a = h a \<or> (DictRef a \<in> set data \<and> date_rewritten filter_year (h a) (h1 a))"
  proof (cases "list_all is_dict data")
    case False
    with assms show ?thesis
      by (simp add: generate_pretty_table_with_hierarchy_def)
  next
    case True
    obtain r' h' where grp: "group_entries filter_year 0 (refs_of data) [] h = (r', h')"
      by (cases "group_entries filter_year 0 (refs_of data) [] h")
    with assms True have "h1 = h'"
      by (auto simp: generate_pretty_table_with_hierarchy_def split: sum.splits)
    with group_entries_any [OF grp, of a] show ?thesis
      by (simp add: refs_of_set)
  qed
  show "\<forall>tables. r = Inr tables \<longrightarrow>
          (if DictRef a \<in> set data then date_rewritten filter_year (h a) (h1 a)
           else h1 a = h a)"
  proof (intro allI impI)
    fix tables
    assume "r = Inr tables"
    with assms have gen: "generate_pretty_table_with_hierarchy currency float_str data
        filter_year exclude_fields exclude_total h = (Inr tables, h1)"
      by simp
    from generate_groups(1) [OF gen] obtain g where
      "group_entries filter_year 0 (refs_of data) [] h = (Inr g, h1)"
      by auto
    from group_entries_store [OF this, of a]
    show "if DictRef a \<in> set data then date_rewritten filter_year (h a) (h1 a)
          else h1 a = h a"
      by (simp add: refs_of_set)
  qed
qed

theorem dates_overwritten_witness:
  "(\<exists>tables h1.
      generate_pretty_table_with_hierarchy some_currency some_float_str
        [DictRef 0, DictRef 1, DictRef 2] (Some 2022) None None example_heap =
        (Inr tables, h1) \<and>
      dict_get (example_heap 0) ''Verkaufsdatum'' VNone = VDate (Timestamp 2022 3 1) \<and>
      dict_get (h1 0) ''Verkaufsdatum'' VNone = VStr ''01.03.2022'' \<and>
      dict_get (example_heap 2) ''Verkaufsdatum'' VNone = VDate (Timestamp 2023 1 15) \<and>
      dict_get (h1 2) ''Verkaufsdatum'' VNone = VDate (Timestamp 2023 1 15) \<and>
      h1 3 = example_heap 3)"
proof -
  obtain tables h1 where
    gen: "generate_pretty_table_with_hierarchy some_currency some_float_str
        [DictRef 0, DictRef 1, DictRef 2] (Some 2022) None None example_heap =
        (Inr tables, h1)"
    using generate_example by simp
  note after = dates_overwritten [OF gen, THEN conjunct2, rule_format, OF refl]
  have d0: "dict_get (example_heap 0) ''Verkaufsdatum'' VNone = VDate (Timestamp 2022 3 1)"
    and d2: "dict_get (example_heap 2) ''Verkaufsdatum'' VNone = VDate (Timestamp 2023 1 15)"
    by (simp_all add: example_heap_def line_item_def dict_get_def)
  have y0: "\<not> year_excluded (Some 2022) 2022" and y2: "year_excluded (Some 2022) 2023"
    by (simp_all add: year_excluded_def)
  have fmt: "fmt_dmy (Timestamp 2022 3 (Suc 0)) = ''01.03.2022''"
    by (simp add: fmt_dmy_def pad2_def show_nat.simps)
  from after [of 0] have
    "h1 0 = dict_set (example_heap 0) ''Verkaufsdatum'' (VStr ''01.03.2022'')"
    by (simp add: date_rewritten_def d0 y0 fmt)
  then have a0: "dict_get (h1 0) ''Verkaufsdatum'' VNone = VStr ''01.03.2022''"
    by (simp add: dict_get_dict_set)
  from after [of 2] have "h1 2 = example_heap 2"
    by (simp add: date_rewritten_def d2 y2)
  with d2 have a2: "dict_get (h1 2) ''Verkaufsdatum'' VNone = VDate (Timestamp 2023 1 15)"
    by simp
  from after [of 3] have a3: "h1 3 = example_heap 3"
    by simp
  from gen d0 a0 d2 a2 a3 show ?thesis by blast
qed

end
